theory Spec2Isabelle
  imports Complex_Main "HOL-Library.Sublist"
begin

section \<open>Values and data model\<close>

text \<open>
  The weather dashboard exists in two variants: \<^verbatim>\<open>src/App.tsx\<close> queries weatherapi.com
  with the key in the query string, and the second source file queries a RapidAPI endpoint
  with the key in the headers. Both declare the same interfaces \<^verbatim>\<open>Weather\<close>,
  \<^verbatim>\<open>Main\<close> and \<^verbatim>\<open>WeatherData\<close> and the same five pieces of component state.

  A JavaScript string is a \<^typ>\<open>string\<close>, one character per code unit (the table keys,
  the URLs and the messages are ASCII; the degree sign is the code unit \<open>0xB0\<close>).
  A JavaScript number that arrives in a JSON body is a finite double, hence a rational.
  A field the provider leaves out reads as \<^verbatim>\<open>undefined\<close>: it is \<open>None\<close>.
  Values of a type other than the one the interface declares are outside the model.
\<close>

type_synonym number = rat

datatype js_error = TypeError | RequestFailed

record Weather =
  weather_id :: "number option"
  weather_main :: "string option"
  description :: "string option"
  icon :: "string option"

record Main =
  temp :: "number option"
  feels_like :: "number option"
  temp_min :: "number option"
  temp_max :: "number option"
  pressure :: "number option"
  humidity :: "number option"

record WeatherData =
  name :: "string option"
  weather :: "Weather list"
  main :: Main

text \<open>
  What \<^verbatim>\<open>setBgImage\<close> can be given: a string, \<^verbatim>\<open>undefined\<close>, or (in the RapidAPI variant,
  where the table is indexed with a key that comes from the provider) a member that the
  table object inherits from \<^verbatim>\<open>Object.prototype\<close>. Such a member is a function, except
  \<^verbatim>\<open>__proto__\<close>, which is the prototype object itself. The background cell can hold, beyond
  these, \<open>Applied k v\<close>: the outcome of calling the inherited function \<open>k\<close> on the value
  \<open>v\<close>, which is not computed here.
\<close>

datatype js_value = Undefined | Str string | ProtoMember string | Applied string js_value

text \<open>The setter of a \<^verbatim>\<open>useState\<close> cell: a function given to it is called with the
  previous value and its outcome becomes the new value; any other value replaces the
  previous one.\<close>

fun useState_set :: "js_value \<Rightarrow> js_value \<Rightarrow> js_value" where
  "useState_set prev (ProtoMember k) =
     (if k = ''__proto__'' then ProtoMember k else Applied k prev)"
| "useState_set prev v = v"

text \<open>The component state: the five \<^verbatim>\<open>useState\<close> cells. The type of the displayed
  data is a parameter, since the RapidAPI variant stores the provider's body as it is.\<close>

record 'd app_state =
  data :: "'d option"
  loading :: bool
  city :: string
  bgImage :: js_value
  error :: "string option"

definition initial_state :: "'d app_state" where
  "initial_state =
     \<lparr>data = None, loading = False, city = ''skardu'', bgImage = Str '''', error = None\<rparr>"

text \<open>Each call of a state setter is an action; a run of the component code is the list
  of the setter calls it makes, in order. Only \<^verbatim>\<open>setBgImage\<close> can be given a function (in
  the RapidAPI variant); the other setters are given data.\<close>

datatype 'd action =
    SetLoading bool
  | SetError "string option"
  | SetData "'d option"
  | SetBgImage js_value
  | SetCity string

fun apply_action :: "'d app_state \<Rightarrow> 'd action \<Rightarrow> 'd app_state" where
  "apply_action st (SetLoading b) = st\<lparr>loading := b\<rparr>"
| "apply_action st (SetError e) = st\<lparr>error := e\<rparr>"
| "apply_action st (SetData d) = st\<lparr>data := d\<rparr>"
| "apply_action st (SetBgImage v) = st\<lparr>bgImage := useState_set (bgImage st) v\<rparr>"
| "apply_action st (SetCity c) = st\<lparr>city := c\<rparr>"

definition run :: "'d app_state \<Rightarrow> 'd action list \<Rightarrow> 'd app_state" where
  "run st acts = foldl apply_action st acts"

text \<open>The outcome of the awaited HTTP call: the promise rejects (network error or a
  status outside 2xx), or it resolves to a response whose \<^verbatim>\<open>data\<close> is the parsed body
  (\<open>None\<close> when the body is \<^verbatim>\<open>null\<close> or absent).\<close>

datatype 'b response = Rejected | Resolved "'b option"

section \<open>Strings\<close>

text \<open>\<^verbatim>\<open>String.prototype.includes\<close>: the keyword occurs in the description as a
  contiguous run of code units, compared exactly.\<close>

fun js_includes :: "string \<Rightarrow> string \<Rightarrow> bool" where
  "js_includes [] k = (k = [])"
| "js_includes (c # cs) k = (prefix k (c # cs) \<or> js_includes cs k)"

text \<open>The conversion to a string that a template literal hole \<^verbatim>\<open>${v}\<close> and a
  computed property key \<^verbatim>\<open>obj[v]\<close> apply to a string that may be undefined.\<close>

definition ToString :: "string option \<Rightarrow> string" where
  "ToString v = (case v of None \<Rightarrow> ''undefined'' | Some s \<Rightarrow> s)"



section \<open>The weatherapi.com variant (src/App.tsx)\<close>

subsection \<open>Background selection\<close>

text \<open>The object literal \<^verbatim>\<open>backgroundImages\<close>, as the list of its own properties in
  insertion order, which is the order of \<^verbatim>\<open>Object.entries\<close> (no key is an integer index).\<close>

definition backgroundImages :: "(string \<times> string) list" where
  "backgroundImages =
    [(''Clear'', ''https://images.unsplash.com/photo-1601134467661-3a775e007848''),
     (''Clouds'', ''https://images.unsplash.com/photo-1483977399921-6cf94f6fdc3a''),
     (''Rain'', ''https://images.unsplash.com/photo-1438449805895-5918d2267f19''),
     (''Snow'', ''https://images.unsplash.com/photo-1491002052546-bf38f186af56''),
     (''Moderate snow showers'', ''https://example.com/moderate-snow-image.jpg''),
     (''Heavy snow showers'', ''https://example.com/heavy-snow-image.jpg''),
     (''Thunderstorm'', ''https://images.unsplash.com/photo-1530533718754-001d3088360a''),
     (''default'', ''https://images.unsplash.com/photo-1504608524841-42fe6f032b5b'')]"

text \<open>A property read \<^verbatim>\<open>obj.k\<close> or \<^verbatim>\<open>obj[k]\<close> on an object literal with string values:
  the own property if there is one, else the member inherited from
  \<^verbatim>\<open>Object.prototype\<close>, else \<^verbatim>\<open>undefined\<close>.\<close>

definition Object_prototype :: "string list" where
  "Object_prototype =
    [''constructor'', ''__defineGetter__'', ''__defineSetter__'', ''hasOwnProperty'',
     ''__lookupGetter__'', ''__lookupSetter__'', ''isPrototypeOf'',
     ''propertyIsEnumerable'', ''toString'', ''valueOf'', ''__proto__'',
     ''toLocaleString'']"

definition get_prop :: "(string \<times> string) list \<Rightarrow> string \<Rightarrow> js_value" where
  "get_prop obj k =
     (case map_of obj k of
        Some u \<Rightarrow> Str u
      | None \<Rightarrow> if k \<in> set Object_prototype then ProtoMember k else Undefined)"

text \<open>\<^verbatim>\<open>weatherDescriptions.some((desc) => desc.includes(condition))\<close>: the descriptions
  are tried in order, stopping at the first that contains the keyword; reading
  \<^verbatim>\<open>includes\<close> of an undefined description throws.\<close>

fun some_includes :: "string option list \<Rightarrow> string \<Rightarrow> js_error + bool" where
  "some_includes [] condition = Inr False"
| "some_includes (None # descs) condition = Inl TypeError"
| "some_includes (Some desc # descs) condition =
     (if js_includes desc condition then Inr True else some_includes descs condition)"

text \<open>The \<^verbatim>\<open>for ... of Object.entries(backgroundImages)\<close> loop with its early return:
  the URL of the first entry that matches, \<open>None\<close> when the loop runs to its end.\<close>

fun scan_entries :: "(string \<times> string) list \<Rightarrow> string option list \<Rightarrow> js_error + string option" where
  "scan_entries [] descs = Inr None"
| "scan_entries ((condition, url) # rest) descs =
     (case some_includes descs condition of
        Inl e \<Rightarrow> Inl e
      | Inr found \<Rightarrow> if found then Inr (Some url) else scan_entries rest descs)"

definition updateBackground :: "Weather list \<Rightarrow> js_error + WeatherData action list" where
  "updateBackground weatherArr =
     (let weatherDescriptions = map description weatherArr in
      case scan_entries backgroundImages weatherDescriptions of
        Inl e \<Rightarrow> Inl e
      | Inr (Some url) \<Rightarrow> Inr [SetBgImage (Str url)]
      | Inr None \<Rightarrow> Inr [SetBgImage (get_prop backgroundImages ''default'')])"

subsection \<open>The provider's response\<close>

text \<open>The part of the weatherapi.com body that the code reads: \<^verbatim>\<open>location.name\<close>,
  \<^verbatim>\<open>current.condition.{code,text,icon}\<close> and four fields of \<^verbatim>\<open>current\<close>. The
  fields \<^verbatim>\<open>name\<close>, \<^verbatim>\<open>code\<close>, \<^verbatim>\<open>text\<close>, \<^verbatim>\<open>icon\<close> and \<^verbatim>\<open>humidity\<close> carry the name
  of their object as a prefix here.\<close>

record Location =
  location_name :: "string option"

record Condition =
  condition_code :: "number option"
  condition_text :: "string option"
  condition_icon :: "string option"

record Current =
  condition :: "Condition option"
  temp_c :: "number option"
  feelslike_c :: "number option"
  pressure_mb :: "number option"
  current_humidity :: "number option"

record ApiData =
  location :: "Location option"
  current :: "Current option"

subsection \<open>fetchData\<close>

definition API_URL :: "string option \<Rightarrow> string \<Rightarrow> string" where
  "API_URL VITE_WEATHER_API_KEY city_now =
     ''https://api.weatherapi.com/v1/current.json?key='' @ ToString VITE_WEATHER_API_KEY
       @ ''&q='' @ city_now @ ''&aqi=yes''"

text \<open>The object literal \<^verbatim>\<open>formattedData\<close>. Reading a property of an absent body,
  \<^verbatim>\<open>location\<close>, \<^verbatim>\<open>current\<close> or \<^verbatim>\<open>condition\<close> throws; an absent leaf is copied as
  undefined.\<close>

definition formattedData :: "ApiData option \<Rightarrow> js_error + WeatherData" where
  "formattedData weatherData =
     (case weatherData of
        None \<Rightarrow> Inl TypeError
      | Some wd \<Rightarrow>
     (case location wd of
        None \<Rightarrow> Inl TypeError
      | Some loc \<Rightarrow>
     (case current wd of
        None \<Rightarrow> Inl TypeError
      | Some cur \<Rightarrow>
     (case condition cur of
        None \<Rightarrow> Inl TypeError
      | Some cond \<Rightarrow>
          Inr \<lparr>name = location_name loc,
               weather =
                 [\<lparr>weather_id = condition_code cond,
                   weather_main = condition_text cond,
                   description = condition_text cond,
                   icon = Some (''https:'' @ ToString (condition_icon cond))\<rparr>],
               main =
                 \<lparr>temp = temp_c cur,
                  feels_like = feelslike_c cur,
                  temp_min = temp_c cur,
                  temp_max = temp_c cur,
                  pressure = pressure_mb cur,
                  humidity = current_humidity cur\<rparr>\<rparr>))))"

text \<open>The statements before the \<^verbatim>\<open>await\<close>, the \<^verbatim>\<open>try\<close> block after it (the setter
  calls it makes and what it throws, if anything), the \<^verbatim>\<open>catch\<close> and the
  \<^verbatim>\<open>finally\<close> block.\<close>

definition fetch_start :: "'d action list" where
  "fetch_start = [SetLoading True, SetError None]"

definition try_block :: "ApiData response \<Rightarrow> WeatherData action list \<times> js_error option" where
  "try_block response =
     (case response of
        Rejected \<Rightarrow> ([], Some RequestFailed)
      | Resolved weatherData \<Rightarrow>
          (case formattedData weatherData of
             Inl e \<Rightarrow> ([], Some e)
           | Inr fd \<Rightarrow>
               (case updateBackground (weather fd) of
                  Inl e \<Rightarrow> ([SetData (Some fd)], Some e)
                | Inr acts \<Rightarrow> (SetData (Some fd) # acts, None))))"

definition catch_block :: "js_error option \<Rightarrow> 'd action list" where
  "catch_block thrown =
     (case thrown of
        None \<Rightarrow> []
      | Some e \<Rightarrow> [SetError (Some ''City not found. Please try again.''), SetData None])"

definition finally_block :: "'d action list" where
  "finally_block = [SetLoading False]"

text \<open>One invocation of \<^verbatim>\<open>fetchData\<close>. The network is the function \<open>axios_get\<close> from
  the requested URL to the outcome of the call.\<close>

definition fetchData_actions ::
  "(string \<Rightarrow> ApiData response) \<Rightarrow> string option \<Rightarrow> WeatherData app_state
     \<Rightarrow> WeatherData action list" where
  "fetchData_actions axios_get VITE_WEATHER_API_KEY st =
     (let response = axios_get (API_URL VITE_WEATHER_API_KEY (city st));
          (acts, thrown) = try_block response
      in fetch_start @ acts @ catch_block thrown @ finally_block)"

definition fetchData ::
  "(string \<Rightarrow> ApiData response) \<Rightarrow> string option \<Rightarrow> WeatherData app_state
     \<Rightarrow> WeatherData app_state" where
  "fetchData axios_get VITE_WEATHER_API_KEY st =
     run st (fetchData_actions axios_get VITE_WEATHER_API_KEY st)"

subsection \<open>Rendering a temperature\<close>

text \<open>\<^verbatim>\<open>Math.round\<close> of a finite number: the nearest integer, a tie going up.\<close>

definition Math_round :: "number \<Rightarrow> int" where
  "Math_round x = \<lfloor>x + 1 / 2\<rfloor>"

definition digit_char :: "nat \<Rightarrow> char" where
  "digit_char d = ''0123456789'' ! d"

fun nat_to_string :: "nat \<Rightarrow> string" where
  "nat_to_string n =
     (if n < 10 then [digit_char n] else nat_to_string (n div 10) @ [digit_char (n mod 10)])"

declare nat_to_string.simps [simp del]

text \<open>The text of an integral number: its decimal digits below \<open>2\<^sup>5\<^sup>3\<close>. From there on
  JavaScript prints the shortest digits that read back as the same double, and from
  \<open>10\<^sup>2\<^sup>1\<close> on an exponent; neither is modelled (\<open>None\<close>).\<close>

definition Number_toString :: "int \<Rightarrow> string option" where
  "Number_toString i =
     (if 2 ^ 53 \<le> \<bar>i\<bar> then None
      else if i < 0 then Some (''-'' @ nat_to_string (nat (- i)))
      else Some (nat_to_string (nat i)))"

text \<open>The JSX text \<^verbatim>\<open>{Math.round(v)}\<close> followed by the degree sign and \<^verbatim>\<open>C\<close>;
  \<^verbatim>\<open>Math.round(undefined)\<close> is \<^verbatim>\<open>NaN\<close>.\<close>

definition degrees_C :: string where
  "degrees_C = [CHR 0xB0, CHR ''C'']"

definition render_temperature :: "number option \<Rightarrow> string option" where
  "render_temperature v =
     (case v of
        None \<Rightarrow> Some (''NaN'' @ degrees_C)
      | Some x \<Rightarrow> map_option (\<lambda>digits. digits @ degrees_C) (Number_toString (Math_round x)))"

section \<open>The RapidAPI variant (second source file)\<close>

definition rapid_backgroundImages :: "(string \<times> string) list" where
  "rapid_backgroundImages =
    [(''Clear'', ''https://images.unsplash.com/photo-1601134467661-3a775e007848''),
     (''Clouds'', ''https://images.unsplash.com/photo-1483977399921-6cf94f6fdc3a''),
     (''Rain'', ''https://images.unsplash.com/photo-1438449805895-5918d2267f19''),
     (''Snow'', ''https://images.unsplash.com/photo-1491002052546-bf38f186af56''),
     (''Thunderstorm'', ''https://images.unsplash.com/photo-1530533718754-001d3088360a''),
     (''default'', ''https://images.unsplash.com/photo-1504608524841-42fe6f032b5b'')]"

text \<open>The body of the RapidAPI response is stored as it is. It has the shape of
  \<^verbatim>\<open>WeatherData\<close>, but \<^verbatim>\<open>weather\<close> and \<^verbatim>\<open>main\<close> may be missing.\<close>

record RapidData =
  rapid_name :: "string option"
  rapid_weather :: "Weather list option"
  rapid_main :: "Main option"

record request =
  request_method :: string
  request_url :: string
  request_headers :: "(string \<times> string option) list"

definition rapid_options :: "string option \<Rightarrow> string option \<Rightarrow> string \<Rightarrow> request" where
  "rapid_options VITE_RAPID_API_KEY VITE_RAPID_HOST_URL city_now =
     \<lparr>request_method = ''GET'',
      request_url = ''https://open-weather13.p.rapidapi.com/city/'' @ city_now @ ''/EN'',
      request_headers = [(''x-rapidapi-key'', VITE_RAPID_API_KEY),
                         (''x-rapidapi-host'', VITE_RAPID_HOST_URL)]\<rparr>"

text \<open>\<^verbatim>\<open>a || b\<close>: the left operand if it is truthy. The empty string and undefined are
  falsy; a function or object inherited from the prototype is truthy. The operands are
  results of property reads, never the outcome of a call, for which nothing is said.\<close>

fun truthy :: "js_value \<Rightarrow> bool" where
  "truthy Undefined = False"
| "truthy (Str s) = (s \<noteq> [])"
| "truthy (ProtoMember k) = True"

definition js_or :: "js_value \<Rightarrow> js_value \<Rightarrow> js_value" where
  "js_or a b = (if truthy a then a else b)"

definition rapid_updateBackground :: "string option \<Rightarrow> RapidData action list" where
  "rapid_updateBackground weather_key =
     (let imageUrl =
            js_or (get_prop rapid_backgroundImages (ToString weather_key))
                  (get_prop rapid_backgroundImages ''default'')
      in [SetBgImage imageUrl])"

text \<open>\<^verbatim>\<open>weather[0]?.main\<close>: undefined when the array is empty.\<close>

definition first_main :: "Weather list \<Rightarrow> string option" where
  "first_main ws = (case ws of [] \<Rightarrow> None | w # _ \<Rightarrow> weather_main w)"

definition rapid_try_block :: "RapidData response \<Rightarrow> RapidData action list \<times> js_error option" where
  "rapid_try_block response =
     (case response of
        Rejected \<Rightarrow> ([], Some RequestFailed)
      | Resolved body \<Rightarrow>
          (case body of
             None \<Rightarrow> ([SetData None], Some TypeError)
           | Some d \<Rightarrow>
               (case rapid_weather d of
                  None \<Rightarrow> ([SetData (Some d)], Some TypeError)
                | Some ws \<Rightarrow> (SetData (Some d) # rapid_updateBackground (first_main ws), None))))"

definition rapid_fetchData_actions ::
  "(request \<Rightarrow> RapidData response) \<Rightarrow> string option \<Rightarrow> string option \<Rightarrow> RapidData app_state
     \<Rightarrow> RapidData action list" where
  "rapid_fetchData_actions axios_request VITE_RAPID_API_KEY VITE_RAPID_HOST_URL st =
     (let options = rapid_options VITE_RAPID_API_KEY VITE_RAPID_HOST_URL (city st);
          response = axios_request options;
          (acts, thrown) = rapid_try_block response
      in fetch_start @ acts @ catch_block thrown @ finally_block)"

definition rapid_fetchData ::
  "(request \<Rightarrow> RapidData response) \<Rightarrow> string option \<Rightarrow> string option \<Rightarrow> RapidData app_state
     \<Rightarrow> RapidData app_state" where
  "rapid_fetchData axios_request VITE_RAPID_API_KEY VITE_RAPID_HOST_URL st =
     run st (rapid_fetchData_actions axios_request VITE_RAPID_API_KEY VITE_RAPID_HOST_URL st)"

section \<open>Reading a run\<close>

text \<open>Which setter calls write the loading flag, store a snapshot (success) or store
  an error message (failure).\<close>

fun sets_loading :: "'d action \<Rightarrow> bool" where
  "sets_loading (SetLoading b) = True"
| "sets_loading a = False"

fun sets_success :: "'d action \<Rightarrow> bool" where
  "sets_success (SetData (Some d)) = True"
| "sets_success a = False"

fun sets_failure :: "'d action \<Rightarrow> bool" where
  "sets_failure (SetError (Some e)) = True"
| "sets_failure a = False"

text \<open>What the \<^verbatim>\<open>try\<close> block of an invocation throws (\<open>None\<close>: nothing, the fetch
  succeeds).\<close>

definition fetch_thrown ::
  "(string \<Rightarrow> ApiData response) \<Rightarrow> string option \<Rightarrow> WeatherData app_state
     \<Rightarrow> js_error option" where
  "fetch_thrown axios_get VITE_WEATHER_API_KEY st =
     snd (try_block (axios_get (API_URL VITE_WEATHER_API_KEY (city st))))"

definition rapid_fetch_thrown ::
  "(request \<Rightarrow> RapidData response) \<Rightarrow> string option \<Rightarrow> string option \<Rightarrow> RapidData app_state
     \<Rightarrow> js_error option" where
  "rapid_fetch_thrown axios_request VITE_RAPID_API_KEY VITE_RAPID_HOST_URL st =
     snd (rapid_try_block
            (axios_request (rapid_options VITE_RAPID_API_KEY VITE_RAPID_HOST_URL (city st))))"

text \<open>The position of a key among the keys of a table (the number of keys if it is
  not one of them).\<close>

fun index_of :: "'a list \<Rightarrow> 'a \<Rightarrow> nat" where
  "index_of [] k = 0"
| "index_of (x # xs) k = (if x = k then 0 else Suc (index_of xs k))"

definition key_position :: "string \<Rightarrow> nat" where
  "key_position k = index_of (map fst backgroundImages) k"

section \<open>Sample inputs\<close>

text \<open>A network that answers every request in the same way.\<close>

definition always :: "'r \<Rightarrow> 'q \<Rightarrow> 'r" where
  "always r q = r"

definition described :: "string \<Rightarrow> Weather" where
  "described d =
     \<lparr>weather_id = Some 1000, weather_main = Some d, description = Some d,
      icon = Some ''https://cdn.weatherapi.com/weather/64x64/day/113.png''\<rparr>"

definition sunny_body :: ApiData where
  "sunny_body =
     \<lparr>location = Some \<lparr>location_name = Some ''Skardu''\<rparr>,
      current = Some
        \<lparr>condition = Some
           \<lparr>condition_code = Some 1000,
            condition_text = Some ''Sunny'',
            condition_icon = Some ''//cdn.weatherapi.com/weather/64x64/day/113.png''\<rparr>,
         temp_c = Some (216 / 10),
         feelslike_c = Some (198 / 10),
         pressure_mb = Some 1012,
         current_humidity = Some 40\<rparr>\<rparr>"

text \<open>The same body with \<^verbatim>\<open>current.condition.text\<close> left out.\<close>

definition body_without_text :: ApiData where
  "body_without_text =
     \<lparr>location = Some \<lparr>location_name = Some ''Skardu''\<rparr>,
      current = Some
        \<lparr>condition = Some
           \<lparr>condition_code = Some 1000,
            condition_text = None,
            condition_icon = Some ''//cdn.weatherapi.com/weather/64x64/day/113.png''\<rparr>,
         temp_c = Some (216 / 10),
         feelslike_c = Some (198 / 10),
         pressure_mb = Some 1012,
         current_humidity = Some 40\<rparr>\<rparr>"

definition late_throw_actions :: "WeatherData action list" where
  "late_throw_actions =
     fetchData_actions (always (Resolved (Some body_without_text))) None initial_state"

definition sunny_snapshot :: WeatherData where
  "sunny_snapshot =
     \<lparr>name = Some ''Skardu'',
      weather = [\<lparr>weather_id = Some 1000, weather_main = Some ''Sunny'',
                  description = Some ''Sunny'',
                  icon = Some ''https://cdn.weatherapi.com/weather/64x64/day/113.png''\<rparr>],
      main = \<lparr>temp = Some (216 / 10), feels_like = Some (198 / 10),
              temp_min = Some (216 / 10), temp_max = Some (216 / 10),
              pressure = Some 1012, humidity = Some 40\<rparr>\<rparr>"

text \<open>A state in which an earlier fetch has left a snapshot and a background.\<close>

definition showing_state :: "WeatherData app_state" where
  "showing_state =
     \<lparr>data = Some sunny_snapshot, loading = False, city = ''nowhere'',
      bgImage = Str ''https://images.unsplash.com/photo-1601134467661-3a775e007848'',
      error = None\<rparr>"

definition rapid_body :: "string option \<Rightarrow> RapidData" where
  "rapid_body main_key =
     \<lparr>rapid_name = Some ''Skardu'',
      rapid_weather = Some
        [\<lparr>weather_id = Some 800, weather_main = main_key,
          description = Some ''clear sky'', icon = Some ''01d''\<rparr>],
      rapid_main = Some
        \<lparr>temp = Some (216 / 10), feels_like = Some (198 / 10),
         temp_min = Some 19, temp_max = Some 23,
         pressure = Some 1012, humidity = Some 40\<rparr>\<rparr>"

text \<open>A body that is an object without a \<^verbatim>\<open>weather\<close> array.\<close>

definition rapid_body_without_weather :: RapidData where
  "rapid_body_without_weather = \<lparr>rapid_name = None, rapid_weather = None, rapid_main = None\<rparr>"

definition rapid_late_throw_actions :: "RapidData action list" where
  "rapid_late_throw_actions =
     rapid_fetchData_actions (always (Resolved (Some rapid_body_without_weather))) None None
       initial_state"

definition rapid_showing_state :: "RapidData app_state" where
  "rapid_showing_state =
     \<lparr>data = Some (rapid_body (Some ''Clear'')), loading = False, city = ''nowhere'',
      bgImage = Str ''https://images.unsplash.com/photo-1601134467661-3a775e007848'',
      error = None\<rparr>"

section \<open>Substring matching and the scan of the table\<close>

lemma js_includes_sublist: "js_includes d k \<longleftrightarrow> sublist k d"
  by (induction d) (auto simp: sublist_Cons_right)

lemma some_includes_defined:
  "some_includes (map Some descs) k = Inr (\<exists>d \<in> set descs. sublist k d)"
  by (induction descs) (auto simp: js_includes_sublist)

lemma scan_entries_defined:
  "scan_entries tbl (map Some descs) =
     Inr (map_option snd (find (\<lambda>(k, u). \<exists>d \<in> set descs. sublist k d) tbl))"
  by (induction tbl) (auto simp: some_includes_defined)

lemma default_entry:
  "get_prop backgroundImages ''default'' =
     Str ''https://images.unsplash.com/photo-1504608524841-42fe6f032b5b''"
  by (simp add: get_prop_def backgroundImages_def)

lemma updateBackground_defined:
  assumes "map description weatherArr = map Some descs"
  shows "updateBackground weatherArr =
     Inr [SetBgImage
           (case find (\<lambda>(keyword, u). \<exists>desc \<in> set descs. sublist keyword desc) backgroundImages of
              Some (keyword, u) \<Rightarrow> Str u
            | None \<Rightarrow> get_prop backgroundImages ''default'')]"
  using assms
  by (auto simp: updateBackground_def scan_entries_defined split: option.splits)

lemma updateBackground_single:
  "description w = Some d \<Longrightarrow>
   updateBackground [w] =
     (case scan_entries backgroundImages [Some d] of
        Inl e \<Rightarrow> Inl e
      | Inr (Some u) \<Rightarrow> Inr [SetBgImage (Str u)]
      | Inr None \<Rightarrow> Inr [SetBgImage (get_prop backgroundImages ''default'')])"
  by (simp add: updateBackground_def)

lemma scan_Tornado: "scan_entries backgroundImages [Some ''Tornado''] = Inr None"
  by (simp add: backgroundImages_def)

lemma scan_Clear:
  "scan_entries backgroundImages [Some ''Clear''] =
     Inr (Some ''https://images.unsplash.com/photo-1601134467661-3a775e007848'')"
  by (simp add: backgroundImages_def)

lemma scan_Heavy:
  "scan_entries backgroundImages [Some ''Heavy snow showers''] =
     Inr (Some ''https://example.com/heavy-snow-image.jpg'')"
  by (simp add: backgroundImages_def)

lemma scan_Moderate:
  "scan_entries backgroundImages [Some ''Moderate snow showers''] =
     Inr (Some ''https://example.com/moderate-snow-image.jpg'')"
  by (simp add: backgroundImages_def)


section \<open>The background selector (weatherapi.com variant)\<close>

text \<open>
  Claim C4. For every list of condition descriptions, the selector goes through the table
  in insertion order and sets the background to the URL of the first entry whose keyword
  is a substring of some description (\<^const>\<open>sublist\<close> is the library's notion of a
  contiguous sublist); when no keyword is a substring of any description, as for
  \<^verbatim>\<open>"Tornado"\<close>, it sets the URL of the \<^verbatim>\<open>default\<close> entry; for \<^verbatim>\<open>"Clear"\<close> it sets
  the URL of the \<^verbatim>\<open>Clear\<close> entry.
\<close>

theorem first_match_wins:
  "(map description weatherArr = map Some descs \<longrightarrow>
      updateBackground weatherArr =
        Inr [SetBgImage
              (case find (\<lambda>(keyword, u). \<exists>desc \<in> set descs. sublist keyword desc)
                      backgroundImages of
                 Some (keyword, u) \<Rightarrow> Str u
               | None \<Rightarrow> get_prop backgroundImages ''default'')]) \<and>
   (description w1 = Some ''Tornado'' \<longrightarrow>
      updateBackground [w1] = Inr [SetBgImage (get_prop backgroundImages ''default'')]) \<and>
   (description w2 = Some ''Clear'' \<longrightarrow>
      updateBackground [w2] = Inr [SetBgImage (get_prop backgroundImages ''Clear'')])"
proof (intro conjI impI)
  assume "map description weatherArr = map Some descs"
  then show "updateBackground weatherArr =
        Inr [SetBgImage
              (case find (\<lambda>(keyword, u). \<exists>desc \<in> set descs. sublist keyword desc)
                      backgroundImages of
                 Some (keyword, u) \<Rightarrow> Str u
               | None \<Rightarrow> get_prop backgroundImages ''default'')]"
    by (rule updateBackground_defined)
next
  assume "description w1 = Some ''Tornado''"
  then show "updateBackground [w1] = Inr [SetBgImage (get_prop backgroundImages ''default'')]"
    by (simp add: updateBackground_single scan_Tornado)
next
  assume "description w2 = Some ''Clear''"
  moreover have "get_prop backgroundImages ''Clear'' =
      Str ''https://images.unsplash.com/photo-1601134467661-3a775e007848''"
    by (simp add: get_prop_def backgroundImages_def)
  ultimately show "updateBackground [w2] = Inr [SetBgImage (get_prop backgroundImages ''Clear'')]"
    by (simp add: updateBackground_single scan_Clear)
qed

lemma described_description: "description (described d) = Some d"
  by (simp add: described_def)

theorem first_match_wins_witness:
  "map description [described ''Light rain, Clouds'', described ''Rain''] =
     map Some [''Light rain, Clouds'', ''Rain''] \<and>
   updateBackground [described ''Light rain, Clouds'', described ''Rain''] =
     (Inr [SetBgImage (Str ''https://images.unsplash.com/photo-1483977399921-6cf94f6fdc3a'')]
        :: js_error + WeatherData action list) \<and>
   description (described ''Tornado'') = Some ''Tornado'' \<and>
   updateBackground [described ''Tornado''] =
     (Inr [SetBgImage (Str ''https://images.unsplash.com/photo-1504608524841-42fe6f032b5b'')]
        :: js_error + WeatherData action list) \<and>
   description (described ''Clear'') = Some ''Clear'' \<and>
   updateBackground [described ''Clear''] =
     (Inr [SetBgImage (Str ''https://images.unsplash.com/photo-1601134467661-3a775e007848'')]
        :: js_error + WeatherData action list)"
proof -
  have h: "map description [described ''Light rain, Clouds'', described ''Rain''] =
     map Some [''Light rain, Clouds'', ''Rain'']"
    by (simp add: described_def)
  have f: "find (\<lambda>(keyword, u). \<exists>desc \<in> set [''Light rain, Clouds'', ''Rain'']. sublist keyword desc)
      backgroundImages = Some (''Clouds'', ''https://images.unsplash.com/photo-1483977399921-6cf94f6fdc3a'')"
    by (simp add: backgroundImages_def js_includes_sublist [symmetric])
  have c: "get_prop backgroundImages ''Clear'' =
      Str ''https://images.unsplash.com/photo-1601134467661-3a775e007848''"
    by (simp add: get_prop_def backgroundImages_def)
  note T = first_match_wins [of "[described ''Light rain, Clouds'', described ''Rain'']"
        "[''Light rain, Clouds'', ''Rain'']" "described ''Tornado''" "described ''Clear''"]
  from T h have "updateBackground [described ''Light rain, Clouds'', described ''Rain''] =
     (Inr [SetBgImage
            (case find (\<lambda>(keyword, u). \<exists>desc \<in> set [''Light rain, Clouds'', ''Rain''].
                          sublist keyword desc) backgroundImages of
               Some (keyword, u) \<Rightarrow> Str u
             | None \<Rightarrow> get_prop backgroundImages ''default'')] :: js_error + WeatherData action list)"
    by blast
  then have a: "updateBackground [described ''Light rain, Clouds'', described ''Rain''] =
     (Inr [SetBgImage (Str ''https://images.unsplash.com/photo-1483977399921-6cf94f6fdc3a'')]
        :: js_error + WeatherData action list)"
    unfolding f by simp
  from T have b: "updateBackground [described ''Tornado''] =
     (Inr [SetBgImage (Str ''https://images.unsplash.com/photo-1504608524841-42fe6f032b5b'')]
        :: js_error + WeatherData action list)"
    by (simp add: default_entry described_description)
  from T have d: "updateBackground [described ''Clear''] =
     (Inr [SetBgImage (Str ''https://images.unsplash.com/photo-1601134467661-3a775e007848'')]
        :: js_error + WeatherData action list)"
    by (simp add: c described_description)
  show ?thesis
    using h a b d by (simp add: described_description)
qed

lemma updateBackground_cong:
  "map description arr1 = map description arr2 \<Longrightarrow> updateBackground arr1 = updateBackground arr2"
  by (simp add: updateBackground_def)


text \<open>
  Claim C1 says that the specific keywords \<^verbatim>\<open>"Moderate snow showers"\<close> and
  \<^verbatim>\<open>"Heavy snow showers"\<close> come before the generic \<^verbatim>\<open>"Snow"\<close> in the table, and that
  for the condition text \<^verbatim>\<open>"Heavy snow showers"\<close> the selected URL is that of whichever of
  \<^verbatim>\<open>"Snow"\<close> and \<^verbatim>\<open>"Heavy snow showers"\<close> comes first. In the table neither specific
  keyword comes before \<^verbatim>\<open>"Snow"\<close>, and the URL selected for \<^verbatim>\<open>"Heavy snow showers"\<close> is
  not that of \<^verbatim>\<open>"Snow"\<close>, the first of the two keys.
\<close>

theorem specific_keys_after_Snow:
  "\<not> key_position ''Heavy snow showers'' < key_position ''Snow'' \<and>
   \<not> key_position ''Moderate snow showers'' < key_position ''Snow'' \<and>
   updateBackground [described ''Heavy snow showers''] \<noteq>
     Inr [SetBgImage (get_prop backgroundImages ''Snow'')]"
  by (simp add: key_position_def backgroundImages_def updateBackground_single [OF described_description]
      scan_Heavy get_prop_def)

text \<open>
  Claim C1, amended. In the table \<^verbatim>\<open>"Snow"\<close> is inserted before
  \<^verbatim>\<open>"Moderate snow showers"\<close> and \<^verbatim>\<open>"Heavy snow showers"\<close> (positions 3, 4 and 5). The
  match is exact in letter case, so \<^verbatim>\<open>"Snow"\<close> is a substring of neither specific
  condition text and does not shadow them: for the condition text
  \<^verbatim>\<open>"Heavy snow showers"\<close> (\<^verbatim>\<open>"Moderate snow showers"\<close>) the selected URL is that of the entry
  of the same name. The selection is a function of the condition descriptions and the
  table alone: two weather arrays with the same descriptions select the same background.
\<close>

theorem snow_showers_not_shadowed:
  "key_position ''Snow'' = 3 \<and>
   key_position ''Moderate snow showers'' = 4 \<and>
   key_position ''Heavy snow showers'' = 5 \<and>
   \<not> js_includes ''Moderate snow showers'' ''Snow'' \<and>
   \<not> js_includes ''Heavy snow showers'' ''Snow'' \<and>
   (description w1 = Some ''Moderate snow showers'' \<longrightarrow>
      updateBackground [w1] = Inr [SetBgImage (Str ''https://example.com/moderate-snow-image.jpg'')]) \<and>
   (description w2 = Some ''Heavy snow showers'' \<longrightarrow>
      updateBackground [w2] = Inr [SetBgImage (Str ''https://example.com/heavy-snow-image.jpg'')]) \<and>
   get_prop backgroundImages ''Moderate snow showers'' = Str ''https://example.com/moderate-snow-image.jpg'' \<and>
   get_prop backgroundImages ''Heavy snow showers'' = Str ''https://example.com/heavy-snow-image.jpg'' \<and>
   (map description arr1 = map description arr2 \<longrightarrow>
      updateBackground arr1 = updateBackground arr2)"
proof (intro conjI impI)
  show "key_position ''Snow'' = 3"
    by (simp add: key_position_def backgroundImages_def)
  show "key_position ''Moderate snow showers'' = 4"
    by (simp add: key_position_def backgroundImages_def)
  show "key_position ''Heavy snow showers'' = 5"
    by (simp add: key_position_def backgroundImages_def)
  show "\<not> js_includes ''Moderate snow showers'' ''Snow''" by simp
  show "\<not> js_includes ''Heavy snow showers'' ''Snow''" by simp
  show "get_prop backgroundImages ''Moderate snow showers'' = Str ''https://example.com/moderate-snow-image.jpg''"
    by (simp add: get_prop_def backgroundImages_def)
  show "get_prop backgroundImages ''Heavy snow showers'' = Str ''https://example.com/heavy-snow-image.jpg''"
    by (simp add: get_prop_def backgroundImages_def)
next
  assume "description w1 = Some ''Moderate snow showers''"
  then show "updateBackground [w1] = Inr [SetBgImage (Str ''https://example.com/moderate-snow-image.jpg'')]"
    by (simp add: updateBackground_single scan_Moderate)
next
  assume "description w2 = Some ''Heavy snow showers''"
  then show "updateBackground [w2] = Inr [SetBgImage (Str ''https://example.com/heavy-snow-image.jpg'')]"
    by (simp add: updateBackground_single scan_Heavy)
next
  assume "map description arr1 = map description arr2"
  then show "updateBackground arr1 = updateBackground arr2"
    by (rule updateBackground_cong)
qed

theorem snow_showers_not_shadowed_witness:
  "description (described ''Moderate snow showers'') = Some ''Moderate snow showers'' \<and>
   updateBackground [described ''Moderate snow showers''] =
     Inr [SetBgImage (Str ''https://example.com/moderate-snow-image.jpg'')] \<and>
   description (described ''Heavy snow showers'') = Some ''Heavy snow showers'' \<and>
   updateBackground [described ''Heavy snow showers''] =
     Inr [SetBgImage (Str ''https://example.com/heavy-snow-image.jpg'')] \<and>
   map description [described ''Snow''] =
     map description [(described ''Snow'')\<lparr>weather_id := Some 1066, icon := None\<rparr>] \<and>
   updateBackground [described ''Snow''] =
     updateBackground [(described ''Snow'')\<lparr>weather_id := Some 1066, icon := None\<rparr>]"
proof -
  note T = snow_showers_not_shadowed [of "described ''Moderate snow showers''"
      "described ''Heavy snow showers''" "[described ''Snow'']"
      "[(described ''Snow'')\<lparr>weather_id := Some 1066, icon := None\<rparr>]"]
  have h: "map description [described ''Snow''] =
     map description [(described ''Snow'')\<lparr>weather_id := Some 1066, icon := None\<rparr>]"
    by (simp add: described_def)
  from T h show ?thesis
    by (simp add: described_description)
qed



section \<open>Runs of fetchData\<close>

lemma run_Nil: "run st [] = st"
  by (simp add: run_def)

lemma run_Cons: "run st (a # acts) = run (apply_action st a) acts"
  by (simp add: run_def)

lemma run_append: "run st (xs @ ys) = run (run st xs) ys"
  by (simp add: run_def)

lemma run_fetch_start: "run st fetch_start = st\<lparr>loading := True, error := None\<rparr>"
  by (simp add: fetch_start_def run_Cons run_Nil)

lemma updateBackground_shape:
  "updateBackground arr = Inr acts \<Longrightarrow> \<exists>v. acts = [SetBgImage v]"
  by (auto simp: updateBackground_def split: sum.splits option.splits)

lemma try_block_shape:
  "(\<exists>e. try_block r = ([], Some e)) \<or>
   (\<exists>fd e. try_block r = ([SetData (Some fd)], Some e)) \<or>
   (\<exists>fd v. try_block r = ([SetData (Some fd), SetBgImage v], None))"
proof (cases r)
  case Rejected
  then show ?thesis by (simp add: try_block_def)
next
  case (Resolved body)
  show ?thesis
  proof (cases "formattedData body")
    case (Inl e)
    with Resolved show ?thesis by (simp add: try_block_def)
  next
    case (Inr fd)
    show ?thesis
    proof (cases "updateBackground (weather fd)")
      case (Inl e)
      with Resolved \<open>formattedData body = Inr fd\<close> show ?thesis
        by (simp add: try_block_def)
    next
      case (Inr acts)
      then obtain v where "acts = [SetBgImage v]"
        using updateBackground_shape by blast
      with Resolved \<open>formattedData body = Inr fd\<close> Inr show ?thesis
        by (simp add: try_block_def)
    qed
  qed
qed

lemma rapid_try_block_shape:
  "rapid_try_block r = ([], Some RequestFailed) \<or>
   rapid_try_block r = ([SetData None], Some TypeError) \<or>
   (\<exists>d. rapid_try_block r = ([SetData (Some d)], Some TypeError)) \<or>
   (\<exists>d v. rapid_try_block r = ([SetData (Some d), SetBgImage v], None))"
  by (auto simp: rapid_try_block_def rapid_updateBackground_def
      split: response.splits option.splits)

lemma fetchData_actions_eq:
  "fetchData_actions axios_get k st =
     fetch_start
       @ fst (try_block (axios_get (API_URL k (city st))))
       @ catch_block (fetch_thrown axios_get k st) @ finally_block"
  by (simp add: fetchData_actions_def fetch_thrown_def Let_def split: prod.splits)

lemma rapid_fetchData_actions_eq:
  "rapid_fetchData_actions axios_request k h st =
     fetch_start
       @ fst (rapid_try_block (axios_request (rapid_options k h (city st))))
       @ catch_block (rapid_fetch_thrown axios_request k h st) @ finally_block"
  by (simp add: rapid_fetchData_actions_def rapid_fetch_thrown_def Let_def split: prod.splits)

text \<open>The state after the catch and finally blocks, whatever ran before.\<close>

lemma run_caught:
  "run st (acts @ catch_block (Some e) @ finally_block) =
     (run st acts)\<lparr>error := Some ''City not found. Please try again.'', data := None,
                    loading := False\<rparr>"
  by (simp add: run_append catch_block_def finally_block_def run_Cons run_Nil)

lemma fetchData_failed:
  assumes "fetch_thrown axios_get k st = Some e"
  shows "error (fetchData axios_get k st) = Some ''City not found. Please try again.''"
    and "data (fetchData axios_get k st) = None"
    and "loading (fetchData axios_get k st) = False"
  using assms
  by (simp_all add: fetchData_def fetchData_actions_eq run_append [of _ fetch_start] run_caught)

lemma rapid_fetchData_failed:
  assumes "rapid_fetch_thrown axios_request k h st = Some e"
  shows "error (rapid_fetchData axios_request k h st) = Some ''City not found. Please try again.''"
    and "data (rapid_fetchData axios_request k h st) = None"
    and "loading (rapid_fetchData axios_request k h st) = False"
  using assms
  by (simp_all add: rapid_fetchData_def rapid_fetchData_actions_eq run_append [of _ fetch_start]
      run_caught)

lemma fetchData_succeeded:
  assumes "fetch_thrown axios_get k st = None"
  shows "\<exists>body fd v. axios_get (API_URL k (city st)) = Resolved body \<and>
           formattedData body = Inr fd \<and>
           updateBackground (weather fd) = Inr [SetBgImage v] \<and>
           fetchData_actions axios_get k st =
             [SetLoading True, SetError None, SetData (Some fd), SetBgImage v, SetLoading False] \<and>
           fetchData axios_get k st =
             st\<lparr>loading := False, error := None, data := Some fd,
                bgImage := useState_set (bgImage st) v\<rparr>"
proof -
  let ?r = "axios_get (API_URL k (city st))"
  from assms have t: "snd (try_block ?r) = None"
    by (simp add: fetch_thrown_def)
  then obtain body where r: "?r = Resolved body"
    by (cases ?r) (auto simp: try_block_def)
  with t obtain fd where fd: "formattedData body = Inr fd"
    by (cases "formattedData body") (auto simp: try_block_def)
  with t r obtain acts where a: "updateBackground (weather fd) = Inr acts"
    by (cases "updateBackground (weather fd)") (auto simp: try_block_def)
  then obtain v where v: "acts = [SetBgImage v]"
    using updateBackground_shape by blast
  have tb: "try_block ?r = ([SetData (Some fd), SetBgImage v], None)"
    using r fd a v by (simp add: try_block_def)
  have acts: "fetchData_actions axios_get k st =
      [SetLoading True, SetError None, SetData (Some fd), SetBgImage v, SetLoading False]"
    by (simp add: fetchData_actions_def tb fetch_start_def catch_block_def finally_block_def)
  have "fetchData axios_get k st =
      st\<lparr>loading := False, error := None, data := Some fd,
                bgImage := useState_set (bgImage st) v\<rparr>"
    by (simp add: fetchData_def acts run_Cons run_Nil)
  with r fd a v acts show ?thesis by blast
qed

lemma rapid_fetchData_succeeded:
  assumes "rapid_fetch_thrown axios_request k h st = None"
  shows "\<exists>d ws v. axios_request (rapid_options k h (city st)) = Resolved (Some d) \<and>
           rapid_weather d = Some ws \<and>
           rapid_updateBackground (first_main ws) = [SetBgImage v] \<and>
           rapid_fetchData_actions axios_request k h st =
             [SetLoading True, SetError None, SetData (Some d), SetBgImage v, SetLoading False] \<and>
           rapid_fetchData axios_request k h st =
             st\<lparr>loading := False, error := None, data := Some d,
                bgImage := useState_set (bgImage st) v\<rparr>"
proof -
  let ?r = "axios_request (rapid_options k h (city st))"
  from assms have t: "snd (rapid_try_block ?r) = None"
    by (simp add: rapid_fetch_thrown_def)
  then obtain d where r: "?r = Resolved (Some d)"
    by (cases ?r) (auto simp: rapid_try_block_def split: option.splits)
  with t obtain ws where ws: "rapid_weather d = Some ws"
    by (cases "rapid_weather d") (auto simp: rapid_try_block_def)
  obtain v where v: "rapid_updateBackground (first_main ws) = [SetBgImage v]"
    by (simp add: rapid_updateBackground_def)
  have tb: "rapid_try_block ?r = ([SetData (Some d), SetBgImage v], None)"
    using r ws v by (simp add: rapid_try_block_def)
  have acts: "rapid_fetchData_actions axios_request k h st =
      [SetLoading True, SetError None, SetData (Some d), SetBgImage v, SetLoading False]"
    by (simp add: rapid_fetchData_actions_def tb fetch_start_def catch_block_def finally_block_def)
  have "rapid_fetchData axios_request k h st =
      st\<lparr>loading := False, error := None, data := Some d,
                bgImage := useState_set (bgImage st) v\<rparr>"
    by (simp add: rapid_fetchData_def acts run_Cons run_Nil)
  with r ws v acts show ?thesis by blast
qed

lemma failed_bg_unchanged:
  assumes "fetch_thrown axios_get k st = Some e"
  shows "bgImage (fetchData axios_get k st) = bgImage st"
proof -
  let ?r = "axios_get (API_URL k (city st))"
  from assms have "snd (try_block ?r) = Some e"
    by (simp add: fetch_thrown_def)
  with try_block_shape [of ?r]
  have "fst (try_block ?r) = [] \<or> (\<exists>fd. fst (try_block ?r) = [SetData (Some fd)])"
    by auto
  then show ?thesis
    using assms
    by (auto simp: fetchData_def fetchData_actions_eq run_append [of _ fetch_start] run_caught
        run_fetch_start run_Cons run_Nil)
qed

lemma rapid_failed_bg_unchanged:
  assumes "rapid_fetch_thrown axios_request k h st = Some e"
  shows "bgImage (rapid_fetchData axios_request k h st) = bgImage st"
proof -
  let ?r = "axios_request (rapid_options k h (city st))"
  from assms have "snd (rapid_try_block ?r) = Some e"
    by (simp add: rapid_fetch_thrown_def)
  with rapid_try_block_shape [of ?r]
  have "fst (rapid_try_block ?r) = [] \<or> (\<exists>d. fst (rapid_try_block ?r) = [SetData d])"
    by auto
  then show ?thesis
    using assms
    by (auto simp: rapid_fetchData_def rapid_fetchData_actions_eq run_append [of _ fetch_start]
        run_caught run_fetch_start run_Cons run_Nil)
qed

lemma fetchData_city: "city (fetchData axios_get k st) = city st"
proof (cases "fetch_thrown axios_get k st")
  case None
  from fetchData_succeeded [OF this] show ?thesis by auto
next
  case (Some e)
  let ?r = "axios_get (API_URL k (city st))"
  from Some have "snd (try_block ?r) = Some e"
    by (simp add: fetch_thrown_def)
  with try_block_shape [of ?r]
  have "fst (try_block ?r) = [] \<or> (\<exists>fd. fst (try_block ?r) = [SetData (Some fd)])"
    by auto
  then show ?thesis
    using Some
    by (auto simp: fetchData_def fetchData_actions_eq run_append [of _ fetch_start] run_caught
        run_fetch_start run_Cons run_Nil)
qed

lemma rapid_fetchData_city: "city (rapid_fetchData axios_request k h st) = city st"
proof (cases "rapid_fetch_thrown axios_request k h st")
  case None
  from rapid_fetchData_succeeded [OF this] show ?thesis by auto
next
  case (Some e)
  let ?r = "axios_request (rapid_options k h (city st))"
  from Some have "snd (rapid_try_block ?r) = Some e"
    by (simp add: rapid_fetch_thrown_def)
  with rapid_try_block_shape [of ?r]
  have "fst (rapid_try_block ?r) = [] \<or> (\<exists>d. fst (rapid_try_block ?r) = [SetData d])"
    by auto
  then show ?thesis
    using Some
    by (auto simp: rapid_fetchData_def rapid_fetchData_actions_eq run_append [of _ fetch_start]
        run_caught run_fetch_start run_Cons run_Nil)
qed

lemma some_includes_error: "some_includes ds c = Inl e \<Longrightarrow> e = TypeError"
  by (induction ds c rule: some_includes.induct) (auto split: if_splits)

lemma scan_entries_error: "scan_entries tbl ds = Inl e \<Longrightarrow> e = TypeError"
  by (induction tbl ds rule: scan_entries.induct)
    (auto split: sum.splits if_splits dest: some_includes_error)

lemma updateBackground_error: "updateBackground arr = Inl e \<Longrightarrow> e = TypeError"
  by (auto simp: updateBackground_def split: sum.splits option.splits dest: scan_entries_error)

lemma formattedData_error: "formattedData body = Inl e \<Longrightarrow> e = TypeError"
  by (auto simp: formattedData_def split: option.splits)

lemma fetch_thrown_iff:
  "fetch_thrown axios_get k st \<noteq> None \<longleftrightarrow>
     axios_get (API_URL k (city st)) = Rejected \<or>
     (\<exists>body. axios_get (API_URL k (city st)) = Resolved body \<and>
        (formattedData body = Inl TypeError \<or>
         (\<exists>fd. formattedData body = Inr fd \<and> updateBackground (weather fd) = Inl TypeError)))"
proof (cases "axios_get (API_URL k (city st))")
  case Rejected
  then show ?thesis by (simp add: fetch_thrown_def try_block_def)
next
  case (Resolved body)
  show ?thesis
  proof (cases "formattedData body")
    case (Inl e)
    with formattedData_error [OF Inl] Resolved show ?thesis
      by (simp add: fetch_thrown_def try_block_def)
  next
    case (Inr fd)
    show ?thesis
    proof (cases "updateBackground (weather fd)")
      case (Inl e)
      with updateBackground_error [OF Inl] Resolved \<open>formattedData body = Inr fd\<close>
      show ?thesis by (simp add: fetch_thrown_def try_block_def)
    next
      case (Inr acts)
      with Resolved \<open>formattedData body = Inr fd\<close>
      show ?thesis by (simp add: fetch_thrown_def try_block_def)
    qed
  qed
qed

section \<open>A failed fetch\<close>

text \<open>
  Claim C2. In both variants, whenever the \<^verbatim>\<open>try\<close> block of a fetch throws, the state
  after the fetch has the error \<^verbatim>\<open>"City not found. Please try again."\<close> and no data,
  whatever the state before the fetch was and whatever was thrown. The \<^verbatim>\<open>try\<close> block
  throws exactly when the request is rejected (a network error or a status outside 2xx) or
  reading the body throws a \<^verbatim>\<open>TypeError\<close>: in the weatherapi.com variant when the body,
  \<^verbatim>\<open>location\<close>, \<^verbatim>\<open>current\<close> or \<^verbatim>\<open>condition\<close> is absent or when the background selector
  meets an undefined description; in the RapidAPI variant when the body or its
  \<^verbatim>\<open>weather\<close> array is absent.
\<close>

theorem failed_fetch_shows_fixed_error:
  "(fetch_thrown axios_get k st \<noteq> None \<longrightarrow>
      error (fetchData axios_get k st) = Some ''City not found. Please try again.'' \<and>
      data (fetchData axios_get k st) = None) \<and>
   (rapid_fetch_thrown axios_request rk rh rst \<noteq> None \<longrightarrow>
      error (rapid_fetchData axios_request rk rh rst) = Some ''City not found. Please try again.'' \<and>
      data (rapid_fetchData axios_request rk rh rst) = None) \<and>
   (fetch_thrown axios_get' k' st' \<noteq> None \<longleftrightarrow>
      axios_get' (API_URL k' (city st')) = Rejected \<or>
      (\<exists>body. axios_get' (API_URL k' (city st')) = Resolved body \<and>
         (formattedData body = Inl TypeError \<or>
          (\<exists>fd. formattedData body = Inr fd \<and> updateBackground (weather fd) = Inl TypeError)))) \<and>
   (rapid_fetch_thrown axios_request' rk' rh' rst' \<noteq> None \<longleftrightarrow>
      axios_request' (rapid_options rk' rh' (city rst')) = Rejected \<or>
      axios_request' (rapid_options rk' rh' (city rst')) = Resolved None \<or>
      (\<exists>d. axios_request' (rapid_options rk' rh' (city rst')) = Resolved (Some d) \<and>
         rapid_weather d = None))"
proof (intro conjI impI)
  assume "fetch_thrown axios_get k st \<noteq> None"
  then obtain e where e: "fetch_thrown axios_get k st = Some e" by auto
  show "error (fetchData axios_get k st) = Some ''City not found. Please try again.''"
    by (rule fetchData_failed(1) [OF e])
  show "data (fetchData axios_get k st) = None"
    by (rule fetchData_failed(2) [OF e])
next
  assume "rapid_fetch_thrown axios_request rk rh rst \<noteq> None"
  then obtain e where e: "rapid_fetch_thrown axios_request rk rh rst = Some e" by auto
  show "error (rapid_fetchData axios_request rk rh rst) = Some ''City not found. Please try again.''"
    by (rule rapid_fetchData_failed(1) [OF e])
  show "data (rapid_fetchData axios_request rk rh rst) = None"
    by (rule rapid_fetchData_failed(2) [OF e])
next
  show "fetch_thrown axios_get' k' st' \<noteq> None \<longleftrightarrow>
      axios_get' (API_URL k' (city st')) = Rejected \<or>
      (\<exists>body. axios_get' (API_URL k' (city st')) = Resolved body \<and>
         (formattedData body = Inl TypeError \<or>
          (\<exists>fd. formattedData body = Inr fd \<and> updateBackground (weather fd) = Inl TypeError)))"
    by (rule fetch_thrown_iff)
next
  show "rapid_fetch_thrown axios_request' rk' rh' rst' \<noteq> None \<longleftrightarrow>
      axios_request' (rapid_options rk' rh' (city rst')) = Rejected \<or>
      axios_request' (rapid_options rk' rh' (city rst')) = Resolved None \<or>
      (\<exists>d. axios_request' (rapid_options rk' rh' (city rst')) = Resolved (Some d) \<and>
         rapid_weather d = None)"
    by (auto simp: rapid_fetch_thrown_def rapid_try_block_def split: response.splits option.splits)
qed


lemma late_throw: "fetch_thrown (always (Resolved (Some body_without_text))) k st = Some TypeError"
  by (simp add: fetch_thrown_def always_def try_block_def formattedData_def body_without_text_def
      updateBackground_def backgroundImages_def)

lemma rapid_rejected: "rapid_fetch_thrown (always Rejected) k h st = Some RequestFailed"
  by (simp add: rapid_fetch_thrown_def always_def rapid_try_block_def)

theorem failed_fetch_shows_fixed_error_witness:
  "fetch_thrown (always (Resolved (Some body_without_text))) None showing_state \<noteq> None \<and>
   data showing_state = Some sunny_snapshot \<and>
   error (fetchData (always (Resolved (Some body_without_text))) None showing_state) =
     Some ''City not found. Please try again.'' \<and>
   data (fetchData (always (Resolved (Some body_without_text))) None showing_state) = None \<and>
   rapid_fetch_thrown (always Rejected) None None rapid_showing_state \<noteq> None \<and>
   error (rapid_fetchData (always Rejected) None None rapid_showing_state) =
     Some ''City not found. Please try again.'' \<and>
   data (rapid_fetchData (always Rejected) None None rapid_showing_state) = None"
proof -
  have h1: "fetch_thrown (always (Resolved (Some body_without_text))) None showing_state \<noteq> None"
    by (simp add: late_throw)
  have h2: "rapid_fetch_thrown (always Rejected) None None rapid_showing_state \<noteq> None"
    by (simp add: rapid_rejected)
  have d: "data showing_state = Some sunny_snapshot"
    by (simp add: showing_state_def)
  note T = failed_fetch_shows_fixed_error [of "always (Resolved (Some body_without_text))" None
      showing_state "always Rejected" None None rapid_showing_state]
  note T1 = T [THEN conjunct1, THEN mp, OF h1]
  note T2 = T [THEN conjunct2, THEN conjunct1, THEN mp, OF h2]
  from h1 h2 d T1 T2 show ?thesis by simp
qed

section \<open>Data or error, never both\<close>

text \<open>
  Claim C6. After one invocation has settled, starting from any state: if the \<^verbatim>\<open>try\<close>
  block did not throw, data is present and the error is null; if it threw, the error is
  the fixed message and data is null; so in every case at most one of data and error is
  present. This holds in both variants.
\<close>

theorem settled_fetch_data_xor_error:
  "(fetch_thrown g1 k1 s1 = None \<longrightarrow>
      data (fetchData g1 k1 s1) \<noteq> None \<and> error (fetchData g1 k1 s1) = None) \<and>
   (fetch_thrown g2 k2 s2 \<noteq> None \<longrightarrow>
      error (fetchData g2 k2 s2) = Some ''City not found. Please try again.'' \<and>
      data (fetchData g2 k2 s2) = None) \<and>
   (data (fetchData g3 k3 s3) = None \<or> error (fetchData g3 k3 s3) = None) \<and>
   (rapid_fetch_thrown r1 rk1 rh1 rs1 = None \<longrightarrow>
      data (rapid_fetchData r1 rk1 rh1 rs1) \<noteq> None \<and> error (rapid_fetchData r1 rk1 rh1 rs1) = None) \<and>
   (rapid_fetch_thrown r2 rk2 rh2 rs2 \<noteq> None \<longrightarrow>
      error (rapid_fetchData r2 rk2 rh2 rs2) = Some ''City not found. Please try again.'' \<and>
      data (rapid_fetchData r2 rk2 rh2 rs2) = None) \<and>
   (data (rapid_fetchData r3 rk3 rh3 rs3) = None \<or> error (rapid_fetchData r3 rk3 rh3 rs3) = None)"
proof -
  have a: "data (fetchData g k s) \<noteq> None \<and> error (fetchData g k s) = None"
    if "fetch_thrown g k s = None" for g k s
    using fetchData_succeeded [OF that] by auto
  have b: "error (fetchData g k s) = Some ''City not found. Please try again.'' \<and>
      data (fetchData g k s) = None"
    if "fetch_thrown g k s \<noteq> None" for g k s
  proof -
    from that obtain e where "fetch_thrown g k s = Some e" by auto
    from fetchData_failed(1,2) [OF this] show ?thesis by simp
  qed
  have c: "data (fetchData g k s) = None \<or> error (fetchData g k s) = None" for g k s
    by (cases "fetch_thrown g k s = None") (simp_all add: a b)
  have ra: "data (rapid_fetchData r k h s) \<noteq> None \<and> error (rapid_fetchData r k h s) = None"
    if "rapid_fetch_thrown r k h s = None" for r k h s
    using rapid_fetchData_succeeded [OF that] by auto
  have rb: "error (rapid_fetchData r k h s) = Some ''City not found. Please try again.'' \<and>
      data (rapid_fetchData r k h s) = None"
    if "rapid_fetch_thrown r k h s \<noteq> None" for r k h s
  proof -
    from that obtain e where "rapid_fetch_thrown r k h s = Some e" by auto
    from rapid_fetchData_failed(1,2) [OF this] show ?thesis by simp
  qed
  have rc: "data (rapid_fetchData r k h s) = None \<or> error (rapid_fetchData r k h s) = None"
    for r k h s
    by (cases "rapid_fetch_thrown r k h s = None") (simp_all add: ra rb)
  from a [of g1 k1 s1] b [of g2 k2 s2] c [of g3 k3 s3]
    ra [of r1 rk1 rh1 rs1] rb [of r2 rk2 rh2 rs2] rc [of r3 rk3 rh3 rs3]
  show ?thesis by simp
qed

lemma sunny_succeeds: "fetch_thrown (always (Resolved (Some sunny_body))) k st = None"
  by (simp add: fetch_thrown_def always_def try_block_def formattedData_def sunny_body_def
      updateBackground_def backgroundImages_def)

lemma rapid_body_succeeds:
  "rapid_fetch_thrown (always (Resolved (Some (rapid_body m)))) k h st = None"
  by (simp add: rapid_fetch_thrown_def always_def rapid_try_block_def rapid_body_def)

theorem settled_fetch_data_xor_error_witness:
  "fetch_thrown (always (Resolved (Some sunny_body))) None
     (initial_state\<lparr>error := Some ''City not found. Please try again.''\<rparr>) = None \<and>
   data (fetchData (always (Resolved (Some sunny_body))) None
     (initial_state\<lparr>error := Some ''City not found. Please try again.''\<rparr>)) \<noteq> None \<and>
   error (fetchData (always (Resolved (Some sunny_body))) None
     (initial_state\<lparr>error := Some ''City not found. Please try again.''\<rparr>)) = None \<and>
   fetch_thrown (always Rejected) None showing_state \<noteq> None \<and>
   error (fetchData (always Rejected) None showing_state) =
     Some ''City not found. Please try again.'' \<and>
   data (fetchData (always Rejected) None showing_state) = None \<and>
   rapid_fetch_thrown (always (Resolved (Some (rapid_body (Some ''Rain''))))) None None
     (initial_state\<lparr>error := Some ''City not found. Please try again.''\<rparr>) = None \<and>
   data (rapid_fetchData (always (Resolved (Some (rapid_body (Some ''Rain''))))) None None
     (initial_state\<lparr>error := Some ''City not found. Please try again.''\<rparr>)) \<noteq> None \<and>
   error (rapid_fetchData (always (Resolved (Some (rapid_body (Some ''Rain''))))) None None
     (initial_state\<lparr>error := Some ''City not found. Please try again.''\<rparr>)) = None \<and>
   rapid_fetch_thrown (always (Resolved None)) None None rapid_showing_state \<noteq> None \<and>
   error (rapid_fetchData (always (Resolved None)) None None rapid_showing_state) =
     Some ''City not found. Please try again.'' \<and>
   data (rapid_fetchData (always (Resolved None)) None None rapid_showing_state) = None"
proof -
  have h1: "fetch_thrown (always (Resolved (Some sunny_body))) None
     (initial_state\<lparr>error := Some ''City not found. Please try again.''\<rparr>) = None"
    by (rule sunny_succeeds)
  have h2: "fetch_thrown (always Rejected) None showing_state \<noteq> None"
    by (simp add: fetch_thrown_def always_def try_block_def)
  have h3: "rapid_fetch_thrown (always (Resolved (Some (rapid_body (Some ''Rain''))))) None None
     (initial_state\<lparr>error := Some ''City not found. Please try again.''\<rparr>) = None"
    by (rule rapid_body_succeeds)
  have h4: "rapid_fetch_thrown (always (Resolved None)) None None rapid_showing_state \<noteq> None"
    by (simp add: rapid_fetch_thrown_def always_def rapid_try_block_def)
  note T = settled_fetch_data_xor_error [of "always (Resolved (Some sunny_body))" None
      "initial_state\<lparr>error := Some ''City not found. Please try again.''\<rparr>"
      "always Rejected" None showing_state
      "always Rejected" None showing_state
      "always (Resolved (Some (rapid_body (Some ''Rain''))))" None None
      "initial_state\<lparr>error := Some ''City not found. Please try again.''\<rparr>"
      "always (Resolved None)" None None rapid_showing_state
      "always (Resolved None)" None None rapid_showing_state]
  from T h1 h2 h3 h4 show ?thesis by simp
qed

section \<open>What a fetch leaves alone\<close>

text \<open>
  Claim C9. The setter calls of an invocation begin with those made before the
  \<^verbatim>\<open>await\<close>, and these change the state only in setting the loading flag and clearing
  the error: the displayed data, the background image and the query string are as
  before. The query string is the same after the whole invocation, and when the fetch fails
  the background image is the one from before the fetch. This holds in both variants.
\<close>

theorem fetch_start_clears_only_error:
  "prefix fetch_start (fetchData_actions axios_get k st) \<and>
   run st fetch_start = st\<lparr>loading := True, error := None\<rparr> \<and>
   data (run st fetch_start) = data st \<and>
   bgImage (run st fetch_start) = bgImage st \<and>
   city (run st fetch_start) = city st \<and>
   error (run st fetch_start) = None \<and>
   city (fetchData axios_get k st) = city st \<and>
   (fetch_thrown axios_get' k' st' \<noteq> None \<longrightarrow>
      bgImage (fetchData axios_get' k' st') = bgImage st') \<and>
   prefix fetch_start (rapid_fetchData_actions axios_request rk rh rst) \<and>
   run rst fetch_start = rst\<lparr>loading := True, error := None\<rparr> \<and>
   data (run rst fetch_start) = data rst \<and>
   bgImage (run rst fetch_start) = bgImage rst \<and>
   city (run rst fetch_start) = city rst \<and>
   error (run rst fetch_start) = None \<and>
   city (rapid_fetchData axios_request rk rh rst) = city rst \<and>
   (rapid_fetch_thrown axios_request' rk' rh' rst' \<noteq> None \<longrightarrow>
      bgImage (rapid_fetchData axios_request' rk' rh' rst') = bgImage rst')"
proof (intro conjI impI)
  show "prefix fetch_start (fetchData_actions axios_get k st)"
    by (simp add: fetchData_actions_eq)
  show "prefix fetch_start (rapid_fetchData_actions axios_request rk rh rst)"
    by (simp add: rapid_fetchData_actions_eq)
  show "run st fetch_start = st\<lparr>loading := True, error := None\<rparr>"
    by (rule run_fetch_start)
  show "run rst fetch_start = rst\<lparr>loading := True, error := None\<rparr>"
    by (rule run_fetch_start)
  show "data (run st fetch_start) = data st" "bgImage (run st fetch_start) = bgImage st"
    "city (run st fetch_start) = city st" "error (run st fetch_start) = None"
    by (simp_all add: run_fetch_start)
  show "data (run rst fetch_start) = data rst" "bgImage (run rst fetch_start) = bgImage rst"
    "city (run rst fetch_start) = city rst" "error (run rst fetch_start) = None"
    by (simp_all add: run_fetch_start)
  show "city (fetchData axios_get k st) = city st"
    by (rule fetchData_city)
  show "city (rapid_fetchData axios_request rk rh rst) = city rst"
    by (rule rapid_fetchData_city)
next
  assume "fetch_thrown axios_get' k' st' \<noteq> None"
  then obtain e where "fetch_thrown axios_get' k' st' = Some e" by auto
  then show "bgImage (fetchData axios_get' k' st') = bgImage st'"
    by (rule failed_bg_unchanged)
next
  assume "rapid_fetch_thrown axios_request' rk' rh' rst' \<noteq> None"
  then obtain e where "rapid_fetch_thrown axios_request' rk' rh' rst' = Some e" by auto
  then show "bgImage (rapid_fetchData axios_request' rk' rh' rst') = bgImage rst'"
    by (rule rapid_failed_bg_unchanged)
qed

theorem fetch_start_clears_only_error_witness:
  "fetch_thrown (always (Resolved (Some body_without_text))) None showing_state \<noteq> None \<and>
   bgImage (fetchData (always (Resolved (Some body_without_text))) None showing_state) =
     Str ''https://images.unsplash.com/photo-1601134467661-3a775e007848'' \<and>
   data (run showing_state fetch_start) = Some sunny_snapshot \<and>
   rapid_fetch_thrown (always Rejected) None None rapid_showing_state \<noteq> None \<and>
   bgImage (rapid_fetchData (always Rejected) None None rapid_showing_state) =
     Str ''https://images.unsplash.com/photo-1601134467661-3a775e007848''"
proof -
  have h1: "fetch_thrown (always (Resolved (Some body_without_text))) None showing_state \<noteq> None"
    by (simp add: late_throw)
  have h2: "rapid_fetch_thrown (always Rejected) None None rapid_showing_state \<noteq> None"
    by (simp add: rapid_rejected)
  note T = fetch_start_clears_only_error [of
      "always (Resolved (Some body_without_text))" None showing_state
      "always (Resolved (Some body_without_text))" None showing_state
      "always Rejected" None None rapid_showing_state
      "always Rejected" None None rapid_showing_state]
  from T h1 h2 show ?thesis
    by (simp add: showing_state_def rapid_showing_state_def)
qed

section \<open>Order of the setter calls\<close>

text \<open>
  Claim C3 says that every invocation sets, between setting and clearing the loading
  flag, exactly one of success (data) and error. For a weatherapi.com body without
  \<^verbatim>\<open>current.condition.text\<close> the snapshot is stored by \<^verbatim>\<open>setData\<close>, then the background
  selector throws on the undefined description, and the \<^verbatim>\<open>catch\<close> block stores the
  error and clears the data: the run sets both. So does the run of the RapidAPI variant
  for a body without a \<^verbatim>\<open>weather\<close> array, which is stored before reading
  \<^verbatim>\<open>weather[0]\<close> throws.
\<close>

theorem late_throw_sets_data_and_error:
  "late_throw_actions =
     [SetLoading True, SetError None,
      SetData (Some \<lparr>name = Some ''Skardu'',
                      weather = [\<lparr>weather_id = Some 1000, weather_main = None,
                                  description = None,
                                  icon = Some ''https://cdn.weatherapi.com/weather/64x64/day/113.png''\<rparr>],
                      main = \<lparr>temp = Some (216 / 10), feels_like = Some (198 / 10),
                              temp_min = Some (216 / 10), temp_max = Some (216 / 10),
                              pressure = Some 1012, humidity = Some 40\<rparr>\<rparr>),
      SetError (Some ''City not found. Please try again.''), SetData None,
      SetLoading False] \<and>
   list_ex sets_success late_throw_actions \<and>
   list_ex sets_failure late_throw_actions \<and>
   rapid_late_throw_actions =
     [SetLoading True, SetError None, SetData (Some rapid_body_without_weather),
      SetError (Some ''City not found. Please try again.''), SetData None,
      SetLoading False] \<and>
   list_ex sets_success rapid_late_throw_actions \<and>
   list_ex sets_failure rapid_late_throw_actions"
proof -
  have a: "late_throw_actions =
     [SetLoading True, SetError None,
      SetData (Some \<lparr>name = Some ''Skardu'',
                      weather = [\<lparr>weather_id = Some 1000, weather_main = None,
                                  description = None,
                                  icon = Some ''https://cdn.weatherapi.com/weather/64x64/day/113.png''\<rparr>],
                      main = \<lparr>temp = Some (216 / 10), feels_like = Some (198 / 10),
                              temp_min = Some (216 / 10), temp_max = Some (216 / 10),
                              pressure = Some 1012, humidity = Some 40\<rparr>\<rparr>),
      SetError (Some ''City not found. Please try again.''), SetData None,
      SetLoading False]"
    by (simp add: late_throw_actions_def fetchData_actions_def always_def try_block_def
        formattedData_def body_without_text_def updateBackground_def backgroundImages_def
        fetch_start_def catch_block_def finally_block_def ToString_def)
  have b: "rapid_late_throw_actions =
     [SetLoading True, SetError None, SetData (Some rapid_body_without_weather),
      SetError (Some ''City not found. Please try again.''), SetData None,
      SetLoading False]"
    by (simp add: rapid_late_throw_actions_def rapid_fetchData_actions_def always_def
        rapid_try_block_def rapid_body_without_weather_def fetch_start_def catch_block_def
        finally_block_def)
  show ?thesis
    unfolding a b by simp
qed

text \<open>
  Claim C3, amended. Every invocation, in both variants, makes its setter calls in this
  order: it first sets the loading flag and clears the error, then come the calls of the
  \<^verbatim>\<open>try\<close> block and, if that throws, of the \<^verbatim>\<open>catch\<close> block, and the last call clears the
  loading flag; the loading flag is written nowhere in between, so it is true from the
  start of the fetch until it settles and false afterwards, on every path, also when the
  processing of a received body throws. A fetch that does not throw sets data and no error.
  A fetch that throws sets the error and leaves the data null; the snapshot may have been
  set before the throw.
\<close>

theorem loading_brackets_every_fetch:
  "(\<exists>mid. fetchData_actions g k st = SetLoading True # SetError None # mid @ [SetLoading False] \<and>
       \<not> list_ex sets_loading mid \<and>
       (if fetch_thrown g k st = None
        then list_ex sets_success mid \<and> \<not> list_ex sets_failure mid
        else list_ex sets_failure mid \<and> data (run st (SetLoading True # SetError None # mid)) = None)) \<and>
   loading (run st fetch_start) = True \<and>
   loading (fetchData g k st) = False \<and>
   (\<exists>mid. rapid_fetchData_actions r rk rh rst =
             SetLoading True # SetError None # mid @ [SetLoading False] \<and>
       \<not> list_ex sets_loading mid \<and>
       (if rapid_fetch_thrown r rk rh rst = None
        then list_ex sets_success mid \<and> \<not> list_ex sets_failure mid
        else list_ex sets_failure mid \<and> data (run rst (SetLoading True # SetError None # mid)) = None)) \<and>
   loading (run rst fetch_start) = True \<and>
   loading (rapid_fetchData r rk rh rst) = False"
proof (intro conjI)
  show "loading (run st fetch_start) = True" "loading (run rst fetch_start) = True"
    by (simp_all add: run_fetch_start)
  show "loading (fetchData g k st) = False"
  proof (cases "fetch_thrown g k st")
    case None
    from fetchData_succeeded [OF this] show ?thesis by auto
  next
    case (Some e)
    then show ?thesis by (rule fetchData_failed(3))
  qed
  show "loading (rapid_fetchData r rk rh rst) = False"
  proof (cases "rapid_fetch_thrown r rk rh rst")
    case None
    from rapid_fetchData_succeeded [OF this] show ?thesis by auto
  next
    case (Some e)
    then show ?thesis by (rule rapid_fetchData_failed(3))
  qed
  show "\<exists>mid. fetchData_actions g k st = SetLoading True # SetError None # mid @ [SetLoading False] \<and>
       \<not> list_ex sets_loading mid \<and>
       (if fetch_thrown g k st = None
        then list_ex sets_success mid \<and> \<not> list_ex sets_failure mid
        else list_ex sets_failure mid \<and> data (run st (SetLoading True # SetError None # mid)) = None)"
  proof (cases "fetch_thrown g k st")
    case None
    from fetchData_succeeded [OF this] obtain fd v where
      "fetchData_actions g k st =
         SetLoading True # SetError None # [SetData (Some fd), SetBgImage v] @ [SetLoading False]"
      by auto
    with None show ?thesis
      by (intro exI [of _ "[SetData (Some fd), SetBgImage v]"]) simp
  next
    case (Some e)
    let ?r = "g (API_URL k (city st))"
    let ?c = "[SetError (Some ''City not found. Please try again.''), SetData None]"
    from Some have "snd (try_block ?r) = Some e"
      by (simp add: fetch_thrown_def)
    with try_block_shape [of ?r]
    have "fst (try_block ?r) = [] \<or> (\<exists>fd. fst (try_block ?r) = [SetData (Some fd)])"
      by auto
    then show ?thesis
    proof
      assume "fst (try_block ?r) = []"
      with Some show ?thesis
        by (intro exI [of _ ?c])
          (simp add: fetchData_actions_eq fetch_start_def catch_block_def finally_block_def
            run_Cons run_Nil)
    next
      assume "\<exists>fd. fst (try_block ?r) = [SetData (Some fd)]"
      then obtain fd where "fst (try_block ?r) = [SetData (Some fd)]" ..
      with Some show ?thesis
        by (intro exI [of _ "SetData (Some fd) # ?c"])
          (simp add: fetchData_actions_eq fetch_start_def catch_block_def finally_block_def
            run_Cons run_Nil)
    qed
  qed
  show "\<exists>mid. rapid_fetchData_actions r rk rh rst =
             SetLoading True # SetError None # mid @ [SetLoading False] \<and>
       \<not> list_ex sets_loading mid \<and>
       (if rapid_fetch_thrown r rk rh rst = None
        then list_ex sets_success mid \<and> \<not> list_ex sets_failure mid
        else list_ex sets_failure mid \<and> data (run rst (SetLoading True # SetError None # mid)) = None)"
  proof (cases "rapid_fetch_thrown r rk rh rst")
    case None
    from rapid_fetchData_succeeded [OF this] obtain d v where
      "rapid_fetchData_actions r rk rh rst =
         SetLoading True # SetError None # [SetData (Some d), SetBgImage v] @ [SetLoading False]"
      by auto
    with None show ?thesis
      by (intro exI [of _ "[SetData (Some d), SetBgImage v]"]) simp
  next
    case (Some e)
    let ?r = "r (rapid_options rk rh (city rst))"
    let ?c = "[SetError (Some ''City not found. Please try again.''), SetData None]"
    from Some have "snd (rapid_try_block ?r) = Some e"
      by (simp add: rapid_fetch_thrown_def)
    with rapid_try_block_shape [of ?r]
    have "fst (rapid_try_block ?r) = [] \<or> (\<exists>d. fst (rapid_try_block ?r) = [SetData d])"
      by auto
    then show ?thesis
    proof
      assume "fst (rapid_try_block ?r) = []"
      with Some show ?thesis
        by (intro exI [of _ ?c])
          (simp add: rapid_fetchData_actions_eq fetch_start_def catch_block_def finally_block_def
            run_Cons run_Nil)
    next
      assume "\<exists>d. fst (rapid_try_block ?r) = [SetData d]"
      then obtain d where "fst (rapid_try_block ?r) = [SetData d]" ..
      with Some show ?thesis
        by (intro exI [of _ "SetData d # ?c"])
          (cases d; simp add: rapid_fetchData_actions_eq fetch_start_def catch_block_def
            finally_block_def run_Cons run_Nil)
    qed
  qed
qed

theorem loading_brackets_every_fetch_witness:
  "fetch_thrown (always (Resolved (Some body_without_text))) None showing_state \<noteq> None \<and>
   (\<exists>mid. fetchData_actions (always (Resolved (Some body_without_text))) None showing_state =
             SetLoading True # SetError None # mid @ [SetLoading False] \<and>
       \<not> list_ex sets_loading mid \<and> list_ex sets_failure mid \<and>
       data (run showing_state (SetLoading True # SetError None # mid)) = None) \<and>
   loading (fetchData (always (Resolved (Some body_without_text))) None showing_state) = False \<and>
   rapid_fetch_thrown (always (Resolved (Some (rapid_body None)))) None None rapid_showing_state = None \<and>
   (\<exists>mid. rapid_fetchData_actions (always (Resolved (Some (rapid_body None)))) None None
             rapid_showing_state =
             SetLoading True # SetError None # mid @ [SetLoading False] \<and>
       \<not> list_ex sets_loading mid \<and> list_ex sets_success mid \<and> \<not> list_ex sets_failure mid) \<and>
   loading (rapid_fetchData (always (Resolved (Some (rapid_body None)))) None None
             rapid_showing_state) = False"
proof -
  have h1: "fetch_thrown (always (Resolved (Some body_without_text))) None showing_state \<noteq> None"
    by (simp add: late_throw)
  have h2: "rapid_fetch_thrown (always (Resolved (Some (rapid_body None)))) None None
      rapid_showing_state = None"
    by (rule rapid_body_succeeds)
  note T = loading_brackets_every_fetch [of "always (Resolved (Some body_without_text))" None
      showing_state "always (Resolved (Some (rapid_body None)))" None None rapid_showing_state]
  from T h1 h2 show ?thesis by simp
qed

section \<open>Temperatures (weatherapi.com variant)\<close>

lemma formattedData_main:
  assumes "formattedData weatherData = Inr fd"
  shows "\<exists>wd cur. weatherData = Some wd \<and> current wd = Some cur \<and>
           temp (main fd) = temp_c cur \<and> feels_like (main fd) = feelslike_c cur \<and>
           temp_min (main fd) = temp_c cur \<and> temp_max (main fd) = temp_c cur"
  using assms
  by (auto simp: formattedData_def split: option.splits)

lemma nat_to_string_small: "n < 10 \<Longrightarrow> nat_to_string n = [digit_char n]"
  by (simp add: nat_to_string.simps)

lemma nat_to_string_big:
  "10 \<le> n \<Longrightarrow> nat_to_string n = nat_to_string (n div 10) @ [digit_char (n mod 10)]"
  by (subst nat_to_string.simps) simp

lemma Math_round_nearest: "\<bar>of_int (Math_round x) - x\<bar> \<le> 1 / 2"
  unfolding Math_round_def by linarith

lemma Math_round_int: "Math_round (of_int i) = i"
  unfolding Math_round_def by linarith

lemma fetched_snapshot:
  assumes "data (fetchData axios_get k st) = Some snap"
  shows "\<exists>body. axios_get (API_URL k (city st)) = Resolved body \<and> formattedData body = Inr snap"
proof (cases "fetch_thrown axios_get k st")
  case None
  from fetchData_succeeded [OF this] assms show ?thesis by auto
next
  case (Some e)
  from fetchData_failed(2) [OF this] assms show ?thesis by simp
qed

lemma sunny_formatted: "formattedData (Some sunny_body) = Inr sunny_snapshot"
  by (simp add: formattedData_def sunny_body_def sunny_snapshot_def ToString_def)

lemma sunny_fetch:
  "data (fetchData (always (Resolved (Some sunny_body))) k st) = Some sunny_snapshot"
proof -
  from fetchData_succeeded [OF sunny_succeeds [of k st]]
  show ?thesis by (auto simp: always_def sunny_formatted)
qed

lemma render_22: "render_temperature (Some (216 / 10)) = Some [CHR ''2'', CHR ''2'', CHR 0xB0, CHR ''C'']"
  by code_simp

text \<open>
  Claim C5. For every body from which the snapshot is built, the snapshot's \<^verbatim>\<open>temp\<close>,
  \<^verbatim>\<open>feels_like\<close>, \<^verbatim>\<open>temp_min\<close> and \<^verbatim>\<open>temp_max\<close> are the provider's \<^verbatim>\<open>temp_c\<close> and
  \<^verbatim>\<open>feelslike_c\<close> as received, and a snapshot that a fetch stores is the one built from
  the body. Rounding is part of rendering only: the rendered text is the decimal form of
  \<^verbatim>\<open>Math.round\<close> of the stored value, an integer at most one half away from it, followed
  by the degree sign and \<^verbatim>\<open>C\<close>. For a body with \<^verbatim>\<open>temp_c\<close> 21.6 the stored \<^verbatim>\<open>temp\<close> is
  21.6 and the rendered text is \<^verbatim>\<open>22\<close>, degree sign, \<^verbatim>\<open>C\<close>.
\<close>

theorem temperatures_rounded_only_when_rendered:
  "(formattedData weatherData = Inr fd \<longrightarrow>
      (\<exists>wd cur. weatherData = Some wd \<and> current wd = Some cur \<and>
         temp (main fd) = temp_c cur \<and> feels_like (main fd) = feelslike_c cur \<and>
         temp_min (main fd) = temp_c cur \<and> temp_max (main fd) = temp_c cur)) \<and>
   (data (fetchData axios_get k st) = Some snap \<longrightarrow>
      (\<exists>body. axios_get (API_URL k (city st)) = Resolved body \<and> formattedData body = Inr snap)) \<and>
   (fetch_thrown axios_get' k' st' = None \<longrightarrow> data (fetchData axios_get' k' st') \<noteq> None) \<and>
   render_temperature (Some x) =
     map_option (\<lambda>digits. digits @ degrees_C) (Number_toString (Math_round x)) \<and>
   \<bar>of_int (Math_round x) - x\<bar> \<le> 1 / 2 \<and>
   map_option temp_c (current sunny_body) = Some (Some (216 / 10)) \<and>
   data (fetchData (always (Resolved (Some sunny_body))) k'' st'') = Some sunny_snapshot \<and>
   temp (main sunny_snapshot) = Some (216 / 10) \<and>
   render_temperature (temp (main sunny_snapshot)) = Some [CHR ''2'', CHR ''2'', CHR 0xB0, CHR ''C'']"
proof (intro conjI impI)
  assume "formattedData weatherData = Inr fd"
  then show "\<exists>wd cur. weatherData = Some wd \<and> current wd = Some cur \<and>
         temp (main fd) = temp_c cur \<and> feels_like (main fd) = feelslike_c cur \<and>
         temp_min (main fd) = temp_c cur \<and> temp_max (main fd) = temp_c cur"
    by (rule formattedData_main)
next
  assume "data (fetchData axios_get k st) = Some snap"
  then show "\<exists>body. axios_get (API_URL k (city st)) = Resolved body \<and> formattedData body = Inr snap"
    by (rule fetched_snapshot)
next
  assume "fetch_thrown axios_get' k' st' = None"
  from fetchData_succeeded [OF this] show "data (fetchData axios_get' k' st') \<noteq> None"
    by auto
next
  show "render_temperature (Some x) =
     map_option (\<lambda>digits. digits @ degrees_C) (Number_toString (Math_round x))"
    by (simp add: render_temperature_def)
  show "\<bar>of_int (Math_round x) - x\<bar> \<le> 1 / 2"
    by (rule Math_round_nearest)
  show "map_option temp_c (current sunny_body) = Some (Some (216 / 10))"
    by (simp add: sunny_body_def)
  show "data (fetchData (always (Resolved (Some sunny_body))) k'' st'') = Some sunny_snapshot"
    by (rule sunny_fetch)
  show "temp (main sunny_snapshot) = Some (216 / 10)"
    by (simp add: sunny_snapshot_def)
  then show "render_temperature (temp (main sunny_snapshot)) =
      Some [CHR ''2'', CHR ''2'', CHR 0xB0, CHR ''C'']"
    by (simp only: render_22)
qed

theorem temperatures_rounded_only_when_rendered_witness:
  "formattedData (Some sunny_body) = Inr sunny_snapshot \<and>
   temp (main sunny_snapshot) = Some (216 / 10) \<and>
   feels_like (main sunny_snapshot) = Some (198 / 10) \<and>
   data (fetchData (always (Resolved (Some sunny_body))) None initial_state) = Some sunny_snapshot \<and>
   fetch_thrown (always (Resolved (Some sunny_body))) None initial_state = None \<and>
   render_temperature (temp (main sunny_snapshot)) = Some [CHR ''2'', CHR ''2'', CHR 0xB0, CHR ''C'']"
proof -
  have h1: "formattedData (Some sunny_body) = Inr sunny_snapshot"
    by (rule sunny_formatted)
  have h3: "fetch_thrown (always (Resolved (Some sunny_body))) None initial_state = None"
    by (rule sunny_succeeds)
  note T = temperatures_rounded_only_when_rendered [of "Some sunny_body" sunny_snapshot
      "always (Resolved (Some sunny_body))" None initial_state sunny_snapshot
      "always (Resolved (Some sunny_body))" None initial_state "216 / 10" None initial_state]
  from T have h2: "data (fetchData (always (Resolved (Some sunny_body))) None initial_state) =
      Some sunny_snapshot"
    by (elim conjE)
  from T have r: "render_temperature (temp (main sunny_snapshot)) =
      Some [CHR ''2'', CHR ''2'', CHR 0xB0, CHR ''C'']"
    by (elim conjE)
  from T have t: "temp (main sunny_snapshot) = Some (216 / 10)"
    by (elim conjE)
  have f: "feels_like (main sunny_snapshot) = Some (198 / 10)"
    by (simp add: sunny_snapshot_def)
  from h1 h2 h3 r t f show ?thesis by simp
qed

text \<open>
  Claim C7. In the weatherapi.com variant every snapshot built from a body has
  \<^verbatim>\<open>temp_min\<close> and \<^verbatim>\<open>temp_max\<close> equal to the provider's \<^verbatim>\<open>temp_c\<close>, which is also
  its \<^verbatim>\<open>temp\<close>. Every fetch that does not throw stores the snapshot built from the body
  it received, and every snapshot found in the state after a fetch is the one built from
  the body received in that fetch; so its \<^verbatim>\<open>temp_min\<close>, \<^verbatim>\<open>temp_max\<close> and \<^verbatim>\<open>temp\<close> all equal
  the \<^verbatim>\<open>temp_c\<close> of that body, and \<^verbatim>\<open>temp_min = temp_max = temp\<close>.
\<close>

theorem min_max_are_current_temperature:
  "(formattedData weatherData = Inr fd \<longrightarrow>
      (\<exists>wd cur. weatherData = Some wd \<and> current wd = Some cur \<and>
         temp_min (main fd) = temp_c cur \<and> temp_max (main fd) = temp_c cur \<and>
         temp (main fd) = temp_c cur)) \<and>
   (fetch_thrown axios_get' k' st' = None \<longrightarrow>
      (\<exists>wd cur fd'. axios_get' (API_URL k' (city st')) = Resolved (Some wd) \<and>
         current wd = Some cur \<and> formattedData (Some wd) = Inr fd' \<and>
         data (fetchData axios_get' k' st') = Some fd' \<and>
         temp_min (main fd') = temp_c cur \<and> temp_max (main fd') = temp_c cur \<and>
         temp (main fd') = temp_c cur)) \<and>
   (data (fetchData axios_get k st) = Some snap \<longrightarrow>
      (\<exists>wd cur. axios_get (API_URL k (city st)) = Resolved (Some wd) \<and>
         current wd = Some cur \<and> formattedData (Some wd) = Inr snap \<and>
         temp_min (main snap) = temp_c cur \<and> temp_max (main snap) = temp_c cur \<and>
         temp (main snap) = temp_c cur) \<and>
      temp_min (main snap) = temp (main snap) \<and> temp_max (main snap) = temp (main snap))"
proof (intro conjI impI)
  assume "formattedData weatherData = Inr fd"
  from formattedData_main [OF this]
  show "\<exists>wd cur. weatherData = Some wd \<and> current wd = Some cur \<and>
         temp_min (main fd) = temp_c cur \<and> temp_max (main fd) = temp_c cur \<and>
         temp (main fd) = temp_c cur"
    by auto
next
  assume "fetch_thrown axios_get' k' st' = None"
  from fetchData_succeeded [OF this] obtain body fd' where
    r: "axios_get' (API_URL k' (city st')) = Resolved body" and
    f: "formattedData body = Inr fd'" and
    d: "data (fetchData axios_get' k' st') = Some fd'"
    by auto
  from formattedData_main [OF f] obtain wd cur where
    "body = Some wd" "current wd = Some cur"
    "temp_min (main fd') = temp_c cur" "temp_max (main fd') = temp_c cur"
    "temp (main fd') = temp_c cur"
    by auto
  with r f d
  show "\<exists>wd cur fd'. axios_get' (API_URL k' (city st')) = Resolved (Some wd) \<and>
         current wd = Some cur \<and> formattedData (Some wd) = Inr fd' \<and>
         data (fetchData axios_get' k' st') = Some fd' \<and>
         temp_min (main fd') = temp_c cur \<and> temp_max (main fd') = temp_c cur \<and>
         temp (main fd') = temp_c cur"
    by auto
next
  assume a: "data (fetchData axios_get k st) = Some snap"
  from fetched_snapshot [OF a] obtain body where
    r: "axios_get (API_URL k (city st)) = Resolved body" and
    f: "formattedData body = Inr snap"
    by auto
  from formattedData_main [OF f] obtain wd cur where
    m: "body = Some wd" "current wd = Some cur"
    "temp_min (main snap) = temp_c cur" "temp_max (main snap) = temp_c cur"
    "temp (main snap) = temp_c cur"
    by auto
  with r f
  show "\<exists>wd cur. axios_get (API_URL k (city st)) = Resolved (Some wd) \<and>
         current wd = Some cur \<and> formattedData (Some wd) = Inr snap \<and>
         temp_min (main snap) = temp_c cur \<and> temp_max (main snap) = temp_c cur \<and>
         temp (main snap) = temp_c cur"
    by auto
  from m show "temp_min (main snap) = temp (main snap)" "temp_max (main snap) = temp (main snap)"
    by simp_all
qed

lemma sunny_current:
  "map_option temp_c (current sunny_body) = Some (Some (216 / 10))"
  by (simp add: sunny_body_def)

theorem min_max_are_current_temperature_witness:
  "data (initial_state :: WeatherData app_state) = None \<and>
   formattedData (Some sunny_body) = Inr sunny_snapshot \<and>
   fetch_thrown (always (Resolved (Some sunny_body))) None initial_state = None \<and>
   data (fetchData (always (Resolved (Some sunny_body))) None initial_state) = Some sunny_snapshot \<and>
   map_option temp_c (current sunny_body) = Some (Some (216 / 10)) \<and>
   temp_min (main sunny_snapshot) = Some (216 / 10) \<and>
   temp_max (main sunny_snapshot) = Some (216 / 10) \<and>
   temp (main sunny_snapshot) = Some (216 / 10)"
proof -
  have h0: "data (initial_state :: WeatherData app_state) = None"
    by (simp add: initial_state_def)
  have h1: "formattedData (Some sunny_body) = Inr sunny_snapshot"
    by (rule sunny_formatted)
  have h2: "fetch_thrown (always (Resolved (Some sunny_body))) None initial_state = None"
    by (rule sunny_succeeds)
  have h3: "data (fetchData (always (Resolved (Some sunny_body))) None initial_state) =
      Some sunny_snapshot"
    by (rule sunny_fetch)
  note T = min_max_are_current_temperature [of "Some sunny_body" sunny_snapshot
      "always (Resolved (Some sunny_body))" None initial_state
      "always (Resolved (Some sunny_body))" None initial_state sunny_snapshot]
  from T [THEN conjunct2, THEN conjunct2, THEN mp, OF h3] obtain wd cur where
    w: "always (Resolved (Some sunny_body))
          (API_URL None (city (initial_state :: WeatherData app_state))) = Resolved (Some wd)"
    and c: "current wd = Some cur"
    and m: "temp_min (main sunny_snapshot) = temp_c cur"
      "temp_max (main sunny_snapshot) = temp_c cur" "temp (main sunny_snapshot) = temp_c cur"
    by blast
  from w have "wd = sunny_body"
    by (simp add: always_def)
  with c sunny_current have "temp_c cur = Some (216 / 10)"
    by simp
  with m h0 h1 h2 h3 sunny_current show ?thesis
    by simp
qed

section \<open>The background lookup (RapidAPI variant)\<close>

lemma rapid_default_entry:
  "get_prop rapid_backgroundImages ''default'' =
     Str ''https://images.unsplash.com/photo-1504608524841-42fe6f032b5b''"
  by (simp add: get_prop_def rapid_backgroundImages_def)

lemma rapid_own_urls_truthy: "map_of rapid_backgroundImages key = Some u \<Longrightarrow> u \<noteq> []"
  by (auto simp: rapid_backgroundImages_def split: if_splits)

text \<open>The lookup is exact: an own key of the table selects its URL, and a key that is
  neither an own key nor a member of the prototype selects the default URL; so does an
  empty weather array.\<close>

lemma rapid_updateBackground_own:
  "map_of rapid_backgroundImages (ToString w) = Some u \<Longrightarrow>
   rapid_updateBackground w = [SetBgImage (Str u)]"
  by (simp add: rapid_updateBackground_def get_prop_def js_or_def rapid_own_urls_truthy)

lemma rapid_updateBackground_absent:
  "map_of rapid_backgroundImages (ToString w) = None \<Longrightarrow> ToString w \<notin> set Object_prototype \<Longrightarrow>
   rapid_updateBackground w = [SetBgImage (get_prop rapid_backgroundImages ''default'')]"
  by (simp add: rapid_updateBackground_def get_prop_def js_or_def)

lemma rapid_updateBackground_empty_array:
  "rapid_updateBackground (first_main []) =
     [SetBgImage (Str ''https://images.unsplash.com/photo-1504608524841-42fe6f032b5b'')]"
  by (simp add: rapid_updateBackground_def first_main_def get_prop_def js_or_def ToString_def
      rapid_backgroundImages_def Object_prototype_def)

lemma rapid_updateBackground_inherited:
  "map_of rapid_backgroundImages (ToString w) = None \<Longrightarrow> ToString w \<in> set Object_prototype \<Longrightarrow>
   rapid_updateBackground w = [SetBgImage (ProtoMember (ToString w))]"
  by (simp add: rapid_updateBackground_def get_prop_def js_or_def)

text \<open>
  Claim C10 says that in the RapidAPI variant the background is chosen by exact key
  lookup on the \<^verbatim>\<open>main\<close> field of the first weather element, and that a value which is
  not a key of the table selects the default URL. The lookup is exact (the three lemmas
  above), but it is a property read on an object literal: for the value \<^verbatim>\<open>"toString"\<close>,
  which is not a key of the table, the read yields the member inherited from
  \<^verbatim>\<open>Object.prototype\<close>, which is truthy, so \<^verbatim>\<open>||\<close> does not fall back to the default URL
  and \<^verbatim>\<open>setBgImage\<close> is given the inherited member. That member is a function, so the
  background cell becomes the outcome of calling it on the previous background (the empty
  string of the initial state), not the default URL.
\<close>

theorem rapid_lookup_reaches_prototype:
  "first_main [\<lparr>weather_id = Some 800, weather_main = Some ''toString'',
                 description = Some ''clear sky'', icon = Some ''01d''\<rparr>] = Some ''toString'' \<and>
   map_of rapid_backgroundImages ''toString'' = None \<and>
   get_prop rapid_backgroundImages ''toString'' = ProtoMember ''toString'' \<and>
   get_prop rapid_backgroundImages ''default'' =
     Str ''https://images.unsplash.com/photo-1504608524841-42fe6f032b5b'' \<and>
   rapid_updateBackground (Some ''toString'') = [SetBgImage (ProtoMember ''toString'')] \<and>
   rapid_fetch_thrown (always (Resolved (Some (rapid_body (Some ''toString''))))) None None
     initial_state = None \<and>
   rapid_fetchData_actions (always (Resolved (Some (rapid_body (Some ''toString''))))) None None
     initial_state =
       [SetLoading True, SetError None, SetData (Some (rapid_body (Some ''toString''))),
        SetBgImage (ProtoMember ''toString''), SetLoading False] \<and>
   bgImage (rapid_fetchData (always (Resolved (Some (rapid_body (Some ''toString''))))) None None
     initial_state) = Applied ''toString'' (Str [])"
proof (intro conjI)
  show "first_main [\<lparr>weather_id = Some 800, weather_main = Some ''toString'',
                 description = Some ''clear sky'', icon = Some ''01d''\<rparr>] = Some ''toString''"
    by (simp add: first_main_def)
  show n: "map_of rapid_backgroundImages ''toString'' = None"
    by (simp add: rapid_backgroundImages_def)
  show "get_prop rapid_backgroundImages ''toString'' = ProtoMember ''toString''"
    by (simp add: get_prop_def n Object_prototype_def)
  show "get_prop rapid_backgroundImages ''default'' =
     Str ''https://images.unsplash.com/photo-1504608524841-42fe6f032b5b''"
    by (rule rapid_default_entry)
  have "ToString (Some ''toString'') \<in> set Object_prototype"
    by (simp add: ToString_def Object_prototype_def)
  with n show u: "rapid_updateBackground (Some ''toString'') = [SetBgImage (ProtoMember ''toString'')]"
    using rapid_updateBackground_inherited [of "Some ''toString''"]
    by (simp add: ToString_def)
  show "rapid_fetch_thrown (always (Resolved (Some (rapid_body (Some ''toString''))))) None None
     initial_state = None"
    by (rule rapid_body_succeeds)
  show a: "rapid_fetchData_actions (always (Resolved (Some (rapid_body (Some ''toString''))))) None None
     initial_state =
       [SetLoading True, SetError None, SetData (Some (rapid_body (Some ''toString''))),
        SetBgImage (ProtoMember ''toString''), SetLoading False]"
    by (simp add: rapid_fetchData_actions_def always_def rapid_try_block_def rapid_body_def
        first_main_def u fetch_start_def catch_block_def finally_block_def)
  show "bgImage (rapid_fetchData (always (Resolved (Some (rapid_body (Some ''toString''))))) None None
     initial_state) = Applied ''toString'' (Str [])"
    unfolding rapid_fetchData_def a
    by (simp add: run_Cons run_Nil initial_state_def)
qed

end
